theory Spec2Isabelle
  imports Complex_Main "HOL-Library.Char_ord"
begin

section \<open>Geometry: DOM elements, current page and scroll target\<close>

text \<open>
  The two variants of the plugin (\<^verbatim>\<open>src/plugin.ts\<close>, the listener strategy, and the
  second file, the override strategy) share \<^verbatim>\<open>getScrollTarget\<close>,
  \<^verbatim>\<open>getCurrentPage\<close>, \<^verbatim>\<open>centerCurrentPage\<close>, \<^verbatim>\<open>getViewerContainer\<close>,
  \<^verbatim>\<open>log\<close>, \<^verbatim>\<open>startup\<close>, \<^verbatim>\<open>shutdown\<close> and the constructor word for word;
  they differ in \<^verbatim>\<open>onRenderToolbar\<close> and \<^verbatim>\<open>addListeners\<close>.

  An \<^verbatim>\<open>HTMLElement\<close> is modelled by the layout properties the code reads.
  \<^verbatim>\<open>clientWidth\<close>, \<^verbatim>\<open>clientHeight\<close>, \<^verbatim>\<open>offsetTop\<close> and
  \<^verbatim>\<open>offsetLeft\<close> are integers in the DOM (Web IDL \<^verbatim>\<open>long\<close>);
  \<^verbatim>\<open>scrollTop\<close> is a double that may be fractional, given here by its exact
  rational value. The arithmetic of \<^verbatim>\<open>getScrollTarget\<close> (a difference of
  integers, a product with \<^verbatim>\<open>0.5\<close>, a sum) is exact on such values and is
  modelled by exact rational arithmetic. The subtraction
  \<^verbatim>\<open>p.offsetTop - viewer.scrollTop\<close> of \<^verbatim>\<open>getCurrentPage\<close> is not exact
  for every \<^verbatim>\<open>scrollTop\<close>: it is modelled with the rounding of IEEE 754 double
  arithmetic.
\<close>

record html_element =
  clientWidth :: int
  clientHeight :: int
  offsetTop :: int
  offsetLeft :: int
  scrollTop :: rat

text \<open>
  The viewport container is an element together with the result of
  \<^verbatim>\<open>viewer.querySelectorAll('.pdfViewer .page')\<close>, in document order.
\<close>

record viewer_container = html_element +
  pages :: "html_element list"

record scroll_target =
  top' :: rat
  left' :: rat

definition getScrollTarget ::
  "'a html_element_scheme \<Rightarrow> 'b html_element_scheme \<Rightarrow> scroll_target" where
  "getScrollTarget viewer page =
     (let xOffset = of_int (clientWidth page - clientWidth viewer) * (5 / 10);
          yOffset = of_int (clientHeight page - clientHeight viewer) * (5 / 10)
      in \<lparr> top' = of_int (offsetTop page) + yOffset,
           left' = of_int (offsetLeft page) + xOffset \<rparr>)"

subsection \<open>Double arithmetic\<close>

text \<open>
  A finite double is \<open>m * 2 ^ e\<close> with \<open>\<bar>m\<bar> < 2 ^ 53\<close> and
  \<open>- 1074 \<le> e \<le> 971\<close>. An arithmetic operation returns the exact result rounded
  to the nearest double, a tie going to the double with the even \<open>m\<close>.

  Rounding a rational to the nearest integer, ties to even:
\<close>

definition roundHalfEven :: "rat \<Rightarrow> int" where
  "roundHalfEven q =
     (let n = \<lfloor>q\<rfloor>; r = q - of_int n
      in if r < 1 / 2 then n else if 1 / 2 < r then n + 1 else if even n then n else n + 1)"

text \<open>
  The exponent of the spacing of the doubles around \<open>x\<close>: the least \<open>e\<close> of the
  format with \<open>\<bar>x\<bar> < 2 ^ (e + 53)\<close>; none if \<open>x\<close> is beyond the format.
\<close>

definition leastExponent :: "int \<Rightarrow> int \<Rightarrow> rat \<Rightarrow> int option" where
  "leastExponent lo hi x = List.find (\<lambda>e. \<bar>x\<bar> < 2 powi (e + 53)) [lo..hi]"

definition ulpExponent :: "rat \<Rightarrow> int option" where
  "ulpExponent x = leastExponent (- 1074) 971 x"

text \<open>
  The double nearest to \<open>x\<close>; \<open>None\<close> stands for an infinity (the result
  overflows).
\<close>

definition roundDouble :: "rat \<Rightarrow> rat option" where
  "roundDouble x =
     (case ulpExponent x of
        None \<Rightarrow> None
      | Some e \<Rightarrow>
          (let y = of_int (roundHalfEven (x / 2 powi e)) * 2 powi e
           in if \<bar>y\<bar> < 2 powi 1024 then Some y else None))"

subsection \<open>The current page\<close>

text \<open>
  The test of the loop body: \<^verbatim>\<open>Math.abs(p.offsetTop - viewer.scrollTop) < 5\<close>,
  on the difference as the double subtraction returns it (\<^verbatim>\<open>Math.abs\<close> and the
  comparison with 5 are exact; an infinity is not below 5).
\<close>

definition nearTop :: "'a html_element_scheme \<Rightarrow> 'b html_element_scheme \<Rightarrow> bool" where
  "nearTop viewer p \<longleftrightarrow>
     (case roundDouble (of_int (offsetTop p) - scrollTop viewer) of
        None \<Rightarrow> False
      | Some d \<Rightarrow> \<bar>d\<bar> < 5)"

text \<open>The \<^verbatim>\<open>for (const p of pages)\<close> loop, returning at the first hit.\<close>

fun firstNearTop :: "'a html_element_scheme \<Rightarrow> html_element list \<Rightarrow> html_element option" where
  "firstNearTop viewer [] = None"
| "firstNearTop viewer (p # ps) = (if nearTop viewer p then Some p else firstNearTop viewer ps)"

definition getCurrentPage :: "viewer_container \<Rightarrow> html_element option" where
  "getCurrentPage viewer = firstNearTop viewer (pages viewer)"

section \<open>The plugin object and its effects\<close>

text \<open>
  The constructor takes \<^verbatim>\<open>PluginOptions\<close>; \<^verbatim>\<open>id\<close> and \<^verbatim>\<open>stylesId\<close> have
  destructuring defaults, used when the property is absent.
\<close>

record plugin_options =
  opt_id :: "string option"
  opt_version :: string
  opt_rootURI :: string
  opt_stylesId :: "string option"

record plugin =
  id' :: string
  stylesId :: string
  version :: string
  rootURI :: string
  isActive :: bool

definition constructor :: "plugin_options \<Rightarrow> plugin" where
  "constructor opts =
     \<lparr> id' = (case opt_id opts of None \<Rightarrow> ''center-pdf@dylan.ac'' | Some i \<Rightarrow> i),
       stylesId = (case opt_stylesId opts of None \<Rightarrow> ''pluginStyles'' | Some s \<Rightarrow> s),
       version = opt_version opts,
       rootURI = opt_rootURI opts,
       isActive = True \<rparr>"

text \<open>
  Everything the plugin does to its surroundings, in program order: calls of
  \<^verbatim>\<open>Zotero.debug\<close>, of the host's listener registry, of \<^verbatim>\<open>viewer.scrollTo\<close>
  and of the embedded viewer's navigation primitives.
\<close>

datatype nav_primitive =
    HistoryNavigateBack
  | PreviousPage
  | NextPage
  | Dispatch string

datatype effect =
    Debug string
  | RegisterEventListener string string
  | UnregisterEventListener string
  | ScrollTo scroll_target
  | Navigate nav_primitive
  | NativeNavigation

text \<open>
  The state threaded through every method: the plugin object itself, the effects so far
  (oldest first) and the number of closures allocated so far, which gives each new
  handler closure its identity.
\<close>

record world =
  plugin :: plugin
  trace :: "effect list"
  closures :: nat

definition emit :: "effect \<Rightarrow> world \<Rightarrow> world" where
  "emit e w = w\<lparr>trace := trace w @ [e]\<rparr>"

text \<open>
  \<^verbatim>\<open>log(msg)\<close> calls \<^verbatim>\<open>Zotero.debug(`[${config.addonName}] ${msg}`)\<close>. The
  add-on name comes from \<^verbatim>\<open>package.json\<close>, which is not part of the sources, so it
  is a parameter.
\<close>

definition log' :: "string \<Rightarrow> string \<Rightarrow> world \<Rightarrow> world" where
  "log' addonName msg w = emit (Debug (''['' @ addonName @ ''] '' @ msg)) w"

text \<open>
  \<^verbatim>\<open>JSON.stringify(target)\<close> only feeds the debug message; its text is left
  abstract as a parameter of the centering function.
\<close>

definition centerCurrentPage ::
  "string \<Rightarrow> (scroll_target \<Rightarrow> string) \<Rightarrow> viewer_container \<Rightarrow> world \<Rightarrow> world" where
  "centerCurrentPage addonName stringify viewer w =
     (case getCurrentPage viewer of
        None \<Rightarrow> log' addonName ''couldn't identify current page'' w
      | Some page \<Rightarrow>
          (let target = getScrollTarget viewer page;
               w1 = log' addonName (''scrolling to '' @ stringify target) w
           in emit (ScrollTo target) w1))"

definition scrollCalls :: "world \<Rightarrow> scroll_target list" where
  "scrollCalls w = concat (map (\<lambda>e. case e of ScrollTo t \<Rightarrow> [t] | _ \<Rightarrow> []) (trace w))"

section \<open>The reader instance and its documents\<close>

text \<open>
  Viewport elements are shared between the document that contains them and the closures
  that capture them, so the attachment code handles them by reference; their layout at
  the moment it is read is supplied where \<^verbatim>\<open>centerCurrentPage\<close> runs.
\<close>

type_synonym viewer_ref = nat

text \<open>
  The closure built at \<^verbatim>\<open>const handler = () => setTimeout(...)\<close>: its identity
  (an allocation number) and the viewport it captured.
\<close>

datatype handler = CenterLater nat viewer_ref

text \<open>A navigation control: an element of which only the listener list is touched.\<close>

record control =
  listeners :: "(string \<times> handler) list"

text \<open>
  \<^verbatim>\<open>EventTarget.addEventListener\<close>: a listener already registered for the same
  event type with the same callback object is not added again.
\<close>

definition addEventListener :: "string \<Rightarrow> handler \<Rightarrow> control \<Rightarrow> control" where
  "addEventListener ty h c =
     (if (ty, h) \<in> set (listeners c) then c else c\<lparr>listeners := listeners c @ [(ty, h)]\<rparr>)"

text \<open>The callbacks that run when an event of type \<open>ty\<close> is dispatched on a control.\<close>

definition dispatchEvent :: "string \<Rightarrow> control \<Rightarrow> handler list" where
  "dispatchEvent ty c = map snd (filter (\<lambda>l. fst l = ty) (listeners c))"

text \<open>
  The frame's content document, as far as it is queried:
  \<^verbatim>\<open>querySelector('#viewerContainer')\<close>.
\<close>

record content_document =
  viewerContainer :: "viewer_ref option"

text \<open>
  What happens to the frame after \<^verbatim>\<open>getViewerContainer\<close> was called: no load event
  at all, or a load event fired while \<^verbatim>\<open>iframe.contentDocument\<close> has the given
  value.
\<close>

datatype load_event = NoLoad | Load "content_document option"

record iframe_element =
  tagName :: string
  contentDocument :: "content_document option"
  loadEvent :: load_event

text \<open>
  \<^verbatim>\<open>reader._iframeWindow.document\<close>, as far as it is queried: the frame selected by
  \<^verbatim>\<open>iframe[src="pdf/web/viewer.html"]\<close> and the four navigation controls
  \<^verbatim>\<open>button#previous\<close>, \<^verbatim>\<open>button#next\<close>, \<^verbatim>\<open>button#navigateBack\<close>,
  \<^verbatim>\<open>input#pageNumber\<close>.
\<close>

record reader_document =
  viewerFrame :: "iframe_element option"
  button_previous :: "control option"
  button_next :: "control option"
  button_navigateBack :: "control option"
  input_pageNumber :: "control option"

record reader_window =
  document :: reader_document

text \<open>
  A navigation operation of \<^verbatim>\<open>lastView\<close>: the viewer's own function, or one of the
  arrow functions assigned by the override variant, which calls a primitive and then
  \<^verbatim>\<open>this.centerCurrentPage(viewer)\<close> on the viewport it captured.
\<close>

datatype nav_fn = Native | Wrapper nav_primitive viewer_ref

datatype pdf_viewer = PdfViewer
datatype event_bus = EventBus

record viewer_application =
  pdfViewer :: "pdf_viewer option"
  eventBus :: "event_bus option"

record last_view =
  lv_iframeWindow :: "viewer_application option"
  navigateBack :: nav_fn
  navigateToPreviousPage :: nav_fn
  navigateToNextPage :: nav_fn
  navigateToFirstPage :: nav_fn
  navigateToLastPage :: nav_fn

text \<open>The state of an awaited promise of the host.\<close>

datatype signal = Resolved | Rejected | Unsettled

record reader_instance =
  reader_type :: string
  tabID :: string
  waitForReader :: signal
  initPromise :: signal
  iframeWindow :: "reader_window option"
  lastView :: last_view

section \<open>Locating the viewport container\<close>

datatype 'a promise = Pending | Fulfilled 'a | Failed

text \<open>Calling \<^verbatim>\<open>resolve\<close> on a promise that is already settled does nothing.\<close>

definition resolve :: "'a \<Rightarrow> 'a promise \<Rightarrow> 'a promise" where
  "resolve v p = (case p of Pending \<Rightarrow> Fulfilled v | _ \<Rightarrow> p)"

text \<open>\<^verbatim>\<open>iframe.contentDocument?.querySelector('#viewerContainer')\<close>\<close>

definition queryViewerContainer :: "content_document option \<Rightarrow> viewer_ref option" where
  "queryViewerContainer d = (case d of None \<Rightarrow> None | Some doc \<Rightarrow> viewerContainer doc)"

text \<open>
  One call of \<^verbatim>\<open>getViewerContainer\<close>: the promise it returned, whether its
  executor registered the \<^verbatim>\<open>load\<close> listener, and how often it has queried the
  content document.
\<close>

record viewer_request =
  promise :: "viewer_ref option promise"
  loadListener :: bool
  queries :: nat

definition getViewerContainer :: "iframe_element \<Rightarrow> viewer_request" where
  "getViewerContainer iframe =
     (case queryViewerContainer (contentDocument iframe) of
        Some viewer \<Rightarrow> \<lparr> promise = Fulfilled (Some viewer), loadListener = False, queries = 1 \<rparr>
      | None \<Rightarrow> \<lparr> promise = Pending, loadListener = True, queries = 1 \<rparr>)"

text \<open>
  The frame fires \<^verbatim>\<open>load\<close> while its content document is \<open>d\<close>: the listener, if
  registered, queries again and resolves with \<^verbatim>\<open>viewer || null\<close>.
\<close>

definition onLoad :: "content_document option \<Rightarrow> viewer_request \<Rightarrow> viewer_request" where
  "onLoad d rq =
     (if loadListener rq
      then rq\<lparr> promise := resolve (queryViewerContainer d) (promise rq),
               queries := Suc (queries rq) \<rparr>
      else rq)"

text \<open>The request as \<^verbatim>\<open>await Plugin.getViewerContainer(iframe)\<close> finds it.\<close>

definition awaitViewerContainer :: "iframe_element \<Rightarrow> viewer_request" where
  "awaitViewerContainer iframe =
     (case loadEvent iframe of
        NoLoad \<Rightarrow> getViewerContainer iframe
      | Load d \<Rightarrow> onLoad d (getViewerContainer iframe))"

section \<open>Attachment\<close>

text \<open>
  \<^verbatim>\<open>toUpperCase\<close> on ASCII text: a lower-case letter loses bit 5 (its code drops by
  32), every other character stays.
\<close>

definition upperChar :: "char \<Rightarrow> char" where
  "upperChar c =
     (if CHR ''a'' \<le> c \<and> c \<le> CHR ''z''
      then (case c of Char b0 b1 b2 b3 b4 b5 b6 b7 \<Rightarrow> Char b0 b1 b2 b3 b4 False b6 b7)
      else c)"

definition toUpperCase :: "string \<Rightarrow> string" where
  "toUpperCase s = map upperChar s"

definition isIframe :: "iframe_element \<Rightarrow> bool" where
  "isIframe e \<longleftrightarrow> toUpperCase (tagName e) = ''IFRAME''"

definition isPDFReader :: "reader_instance \<Rightarrow> bool" where
  "isPDFReader r \<longleftrightarrow> reader_type r = ''pdf''"

text \<open>
  How a call of the asynchronous \<^verbatim>\<open>addListeners\<close> ends: it returns, it stays
  suspended at an \<^verbatim>\<open>await\<close> for ever, or its promise rejects.
\<close>

datatype outcome = Returned | Suspended | Threw

text \<open>
  The first lookups of both variants: \<^verbatim>\<open>doc\<close> and \<^verbatim>\<open>iframe\<close>, and the test
  \<^verbatim>\<open>!doc || !iframe || !isIframe(iframe)\<close>; \<open>None\<close> is the failing branch.
\<close>

definition locateFrame :: "reader_instance \<Rightarrow> (reader_document \<times> iframe_element) option" where
  "locateFrame reader =
     (case iframeWindow reader of
        None \<Rightarrow> None
      | Some win \<Rightarrow>
          (case viewerFrame (document win) of
             None \<Rightarrow> None
           | Some iframe \<Rightarrow> if isIframe iframe then Some (document win, iframe) else None))"

definition notReady :: "string \<Rightarrow> reader_instance \<Rightarrow> world \<Rightarrow> world" where
  "notReady addonName reader w =
     log' addonName (''couldn't attach styles; tab '' @ tabID reader @ '' not ready'') w"

text \<open>The four optional \<^verbatim>\<open>?.addEventListener\<close> calls of the listener variant.\<close>

definition installListeners :: "handler \<Rightarrow> reader_document \<Rightarrow> reader_document" where
  "installListeners h doc =
     doc\<lparr> button_previous := map_option (addEventListener ''click'' h) (button_previous doc),
          button_next := map_option (addEventListener ''click'' h) (button_next doc),
          button_navigateBack := map_option (addEventListener ''click'' h) (button_navigateBack doc),
          input_pageNumber := map_option (addEventListener ''change'' h) (input_pageNumber doc) \<rparr>"

text \<open>\<^verbatim>\<open>addListeners\<close> of \<^verbatim>\<open>src/plugin.ts\<close> (listener strategy).\<close>

definition addListeners_listener ::
  "string \<Rightarrow> reader_instance \<Rightarrow> world \<Rightarrow> outcome \<times> reader_instance \<times> world" where
  "addListeners_listener addonName reader w0 =
     (let w1 = log' addonName ''adding page listeners'' w0 in
      case waitForReader reader of
        Unsettled \<Rightarrow> (Suspended, reader, w1)
      | Rejected \<Rightarrow> (Threw, reader, w1)
      | Resolved \<Rightarrow>
      (case initPromise reader of
        Unsettled \<Rightarrow> (Suspended, reader, w1)
      | Rejected \<Rightarrow> (Threw, reader, w1)
      | Resolved \<Rightarrow>
      (case locateFrame reader of
        None \<Rightarrow> (Returned, reader, notReady addonName reader w1)
      | Some (doc, iframe) \<Rightarrow>
      (case promise (awaitViewerContainer iframe) of
        Pending \<Rightarrow> (Suspended, reader, w1)
      | Failed \<Rightarrow> (Threw, reader, w1)
      | Fulfilled None \<Rightarrow> (Returned, reader, w1)
      | Fulfilled (Some viewer) \<Rightarrow>
          (let handler = CenterLater (closures w1) viewer;
               w2 = w1\<lparr>closures := Suc (closures w1)\<rparr>;
               reader' = reader\<lparr>iframeWindow := Some \<lparr>document = installListeners handler doc\<rparr>\<rparr>
           in (Returned, reader', log' addonName ''added page listeners'' w2))))))"

text \<open>The five assignments to \<^verbatim>\<open>lastView\<close> of the override variant.\<close>

definition installOverrides :: "viewer_ref \<Rightarrow> last_view \<Rightarrow> last_view" where
  "installOverrides viewer lv =
     lv\<lparr> navigateBack := Wrapper HistoryNavigateBack viewer,
         navigateToPreviousPage := Wrapper PreviousPage viewer,
         navigateToNextPage := Wrapper NextPage viewer,
         navigateToFirstPage := Wrapper (Dispatch ''firstpage'') viewer,
         navigateToLastPage := Wrapper (Dispatch ''lastpage'') viewer \<rparr>"

text \<open>
  \<^verbatim>\<open>lastView._iframeWindow?.PDFViewerApplication.pdfViewer\<close> and
  \<^verbatim>\<open>...eventBus\<close>. The objects read without \<^verbatim>\<open>?.\<close>
  (\<^verbatim>\<open>reader._internalReader\<close>, its \<^verbatim>\<open>_lastView\<close> and the
  \<^verbatim>\<open>PDFViewerApplication\<close> of a window that exists) are there, as their
  TypeScript types say.
\<close>

definition lookupPdfViewer :: "last_view \<Rightarrow> pdf_viewer option" where
  "lookupPdfViewer lv = (case lv_iframeWindow lv of None \<Rightarrow> None | Some app \<Rightarrow> pdfViewer app)"

definition lookupEventBus :: "last_view \<Rightarrow> event_bus option" where
  "lookupEventBus lv = (case lv_iframeWindow lv of None \<Rightarrow> None | Some app \<Rightarrow> eventBus app)"

text \<open>\<^verbatim>\<open>addListeners\<close> of the second file (override strategy).\<close>

definition addListeners_override ::
  "string \<Rightarrow> reader_instance \<Rightarrow> world \<Rightarrow> outcome \<times> reader_instance \<times> world" where
  "addListeners_override addonName reader w0 =
     (let w1 = log' addonName ''adding page listeners'' w0 in
      case waitForReader reader of
        Unsettled \<Rightarrow> (Suspended, reader, w1)
      | Rejected \<Rightarrow> (Threw, reader, w1)
      | Resolved \<Rightarrow>
      (case initPromise reader of
        Unsettled \<Rightarrow> (Suspended, reader, w1)
      | Rejected \<Rightarrow> (Threw, reader, w1)
      | Resolved \<Rightarrow>
      (case locateFrame reader of
        None \<Rightarrow> (Returned, reader, notReady addonName reader w1)
      | Some (doc, iframe) \<Rightarrow>
      (case promise (awaitViewerContainer iframe) of
        Pending \<Rightarrow> (Suspended, reader, w1)
      | Failed \<Rightarrow> (Threw, reader, w1)
      | Fulfilled viewer \<Rightarrow>
          (case (viewer, lookupPdfViewer (lastView reader), lookupEventBus (lastView reader)) of
             (Some v, Some pv, Some eb) \<Rightarrow>
               (Returned, reader\<lparr>lastView := installOverrides v (lastView reader)\<rparr>,
                log' addonName ''added page listeners'' w1)
           | _ \<Rightarrow> (Returned, reader, w1))))))"

text \<open>
  Calling a navigation operation of \<^verbatim>\<open>lastView\<close>. \<open>layout\<close> gives the layout of each
  viewport element as \<^verbatim>\<open>centerCurrentPage\<close> reads it, that is, after the viewer has
  reacted to the primitive.
\<close>

definition invoke ::
  "string \<Rightarrow> (scroll_target \<Rightarrow> string) \<Rightarrow> (viewer_ref \<Rightarrow> viewer_container) \<Rightarrow> nav_fn \<Rightarrow>
   world \<Rightarrow> world" where
  "invoke addonName stringify layout f w =
     (case f of
        Native \<Rightarrow> emit NativeNavigation w
      | Wrapper p viewer \<Rightarrow>
          centerCurrentPage addonName stringify (layout viewer) (emit (Navigate p) w))"

text \<open>
  What a handler closure of the listener variant does once its \<^verbatim>\<open>setTimeout\<close>
  callback runs, on the scheduler turn after the event.
\<close>

fun runHandler ::
  "string \<Rightarrow> (scroll_target \<Rightarrow> string) \<Rightarrow> (viewer_ref \<Rightarrow> viewer_container) \<Rightarrow> handler \<Rightarrow>
   world \<Rightarrow> world" where
  "runHandler addonName stringify layout (CenterLater n viewer) w =
     centerCurrentPage addonName stringify (layout viewer) w"

text \<open>The render-notification handlers of the two variants.\<close>

definition onRenderToolbar_listener ::
  "string \<Rightarrow> reader_instance \<Rightarrow> world \<Rightarrow> outcome \<times> reader_instance \<times> world" where
  "onRenderToolbar_listener addonName reader w = addListeners_listener addonName reader w"

definition onRenderToolbar_override ::
  "string \<Rightarrow> reader_instance \<Rightarrow> world \<Rightarrow> outcome \<times> reader_instance \<times> world" where
  "onRenderToolbar_override addonName reader w =
     (if isPDFReader reader then addListeners_override addonName reader w
      else (Returned, reader, w))"

definition startup :: "string \<Rightarrow> world \<Rightarrow> world" where
  "startup addonName w =
     emit (RegisterEventListener ''renderToolbar'' (id' (plugin w)))
       (log' addonName ''registering renderToolbar listener'' w)"

definition shutdown :: "string \<Rightarrow> world \<Rightarrow> world" where
  "shutdown addonName w =
     emit (UnregisterEventListener ''renderToolbar'')
       (log' addonName ''unregistering renderToolbar listener'' w)"

section \<open>Sequences of operations\<close>

datatype variant = ListenerVariant | OverrideVariant

datatype operation =
    Startup
  | Shutdown
  | OnRenderToolbar reader_instance
  | AddListeners reader_instance
  | CenterCurrentPage viewer_container
  | Log string

fun perform ::
  "variant \<Rightarrow> string \<Rightarrow> (scroll_target \<Rightarrow> string) \<Rightarrow> operation \<Rightarrow> world \<Rightarrow> world" where
  "perform var a s Startup w = startup a w"
| "perform var a s Shutdown w = shutdown a w"
| "perform ListenerVariant a s (OnRenderToolbar r) w = snd (snd (onRenderToolbar_listener a r w))"
| "perform OverrideVariant a s (OnRenderToolbar r) w = snd (snd (onRenderToolbar_override a r w))"
| "perform ListenerVariant a s (AddListeners r) w = snd (snd (addListeners_listener a r w))"
| "perform OverrideVariant a s (AddListeners r) w = snd (snd (addListeners_override a r w))"
| "perform var a s (CenterCurrentPage viewer) w = centerCurrentPage a s viewer w"
| "perform var a s (Log msg) w = log' a msg w"

fun run ::
  "variant \<Rightarrow> string \<Rightarrow> (scroll_target \<Rightarrow> string) \<Rightarrow> operation list \<Rightarrow> world \<Rightarrow> world" where
  "run var a s [] w = w"
| "run var a s (op # ops) w = run var a s ops (perform var a s op w)"

text \<open>The world right after \<^verbatim>\<open>new Plugin(opts)\<close>.\<close>

definition newWorld :: "plugin_options \<Rightarrow> world" where
  "newWorld opts = \<lparr> plugin = constructor opts, trace = [], closures = 0 \<rparr>"

section \<open>Vocabulary of the properties\<close>

text \<open>
  The tolerance as a distance: the top offset of the page differs from the scroll-top of
  the viewport by less than 5 units.
\<close>

definition withinTolerance :: "'a html_element_scheme \<Rightarrow> 'b html_element_scheme \<Rightarrow> bool" where
  "withinTolerance viewer p \<longleftrightarrow> \<bar>of_int (offsetTop p) - scrollTop viewer\<bar> < 5"

text \<open>
  The double subtraction \<^verbatim>\<open>p.offsetTop - viewer.scrollTop\<close> is exact: the
  difference is a double itself.
\<close>

definition exactDifference :: "'a html_element_scheme \<Rightarrow> 'b html_element_scheme \<Rightarrow> bool" where
  "exactDifference viewer p \<longleftrightarrow>
     roundDouble (of_int (offsetTop p) - scrollTop viewer)
       = Some (of_int (offsetTop p) - scrollTop viewer)"

text \<open>Both readiness signals of the reader resolve.\<close>

definition ready :: "reader_instance \<Rightarrow> bool" where
  "ready r \<longleftrightarrow> waitForReader r = Resolved \<and> initPromise r = Resolved"

text \<open>The primitives called so far, in order.\<close>

definition navigations :: "world \<Rightarrow> nav_primitive list" where
  "navigations w = concat (map (\<lambda>e. case e of Navigate p \<Rightarrow> [p] | _ \<Rightarrow> []) (trace w))"

text \<open>
  Every handler closure registered on a control of the document was allocated before
  the counter reached \<open>n\<close>.
\<close>

fun closureId :: "handler \<Rightarrow> nat" where
  "closureId (CenterLater n v) = n"

definition allocatedBefore :: "nat \<Rightarrow> control option \<Rightarrow> bool" where
  "allocatedBefore n c =
     (case c of None \<Rightarrow> True | Some ctl \<Rightarrow> list_all (\<lambda>l. closureId (snd l) < n) (listeners ctl))"

definition knownClosures :: "nat \<Rightarrow> reader_document \<Rightarrow> bool" where
  "knownClosures n doc \<longleftrightarrow>
     allocatedBefore n (button_previous doc) \<and> allocatedBefore n (button_next doc) \<and>
     allocatedBefore n (button_navigateBack doc) \<and> allocatedBefore n (input_pageNumber doc)"

text \<open>The listener list of a control with two more entries, if the control exists.\<close>

definition withHandlers ::
  "string \<Rightarrow> handler \<Rightarrow> handler \<Rightarrow> control option \<Rightarrow> (string \<times> handler) list option" where
  "withHandlers ty h1 h2 c = map_option (\<lambda>ctl. listeners ctl @ [(ty, h1), (ty, h2)]) c"

text \<open>
  The viewport on which a run of the override variant installs its wrappers, if it gets
  that far.
\<close>

definition overrideTarget :: "reader_instance \<Rightarrow> viewer_ref option" where
  "overrideTarget r =
     (if ready r \<and> lookupPdfViewer (lastView r) \<noteq> None \<and> lookupEventBus (lastView r) \<noteq> None
      then (case locateFrame r of
              None \<Rightarrow> None
            | Some (doc, iframe) \<Rightarrow>
                (case promise (awaitViewerContainer iframe) of Fulfilled v \<Rightarrow> v | _ \<Rightarrow> None))
      else None)"

text \<open>The callbacks a click on \<^verbatim>\<open>button#previous\<close> runs.\<close>

definition clickHandlers :: "reader_instance \<Rightarrow> handler list" where
  "clickHandlers r =
     (case iframeWindow r of
        None \<Rightarrow> []
      | Some win \<Rightarrow>
          (case button_previous (document win) of
             None \<Rightarrow> []
           | Some c \<Rightarrow> dispatchEvent ''click'' c))"

text \<open>Running an attachment function a second time on the reader the first run left.\<close>

definition twice ::
  "(reader_instance \<Rightarrow> world \<Rightarrow> outcome \<times> reader_instance \<times> world) \<Rightarrow>
   reader_instance \<Rightarrow> world \<Rightarrow> outcome \<times> reader_instance \<times> world" where
  "twice f r w = (case f r w of (out, r1, w1) \<Rightarrow> f r1 w1)"

section \<open>Example inputs\<close>

definition exampleOptions :: plugin_options where
  "exampleOptions =
     \<lparr> opt_id = None, opt_version = ''1.0.0'', opt_rootURI = ''resource://center-pdf/'',
       opt_stylesId = None \<rparr>"

definition pageAt :: "int \<Rightarrow> html_element" where
  "pageAt y =
     \<lparr> clientWidth = 800, clientHeight = 600, offsetTop = y, offsetLeft = 0, scrollTop = 0 \<rparr>"

definition viewerAt :: "rat \<Rightarrow> html_element list \<Rightarrow> viewer_container" where
  "viewerAt y ps =
     \<lparr> clientWidth = 800, clientHeight = 600, offsetTop = 0, offsetLeft = 0, scrollTop = y,
       pages = ps \<rparr>"

definition exampleFrame :: "viewer_ref option \<Rightarrow> load_event \<Rightarrow> iframe_element" where
  "exampleFrame v l =
     \<lparr> tagName = ''iframe'', contentDocument = Some \<lparr> viewerContainer = v \<rparr>, loadEvent = l \<rparr>"

definition freshControl :: control where
  "freshControl = \<lparr> listeners = [] \<rparr>"

definition nativeView :: last_view where
  "nativeView =
     \<lparr> lv_iframeWindow = Some \<lparr> pdfViewer = Some PdfViewer, eventBus = Some EventBus \<rparr>,
       navigateBack = Native, navigateToPreviousPage = Native, navigateToNextPage = Native,
       navigateToFirstPage = Native, navigateToLastPage = Native \<rparr>"

text \<open>
  A reader that is ready, with all controls but \<^verbatim>\<open>button#next\<close> in its document;
  its kind and its viewer frame are the arguments.
\<close>

definition exampleReader :: "string \<Rightarrow> iframe_element option \<Rightarrow> reader_instance" where
  "exampleReader kind frame =
     \<lparr> reader_type = kind, tabID = ''tab-1'', waitForReader = Resolved, initPromise = Resolved,
       iframeWindow = Some \<lparr> document =
         \<lparr> viewerFrame = frame, button_previous = Some freshControl, button_next = None,
           button_navigateBack = Some freshControl, input_pageNumber = Some freshControl \<rparr> \<rparr>,
       lastView = nativeView \<rparr>"

text \<open>A PDF reader whose viewport (element 7) is there at once.\<close>

definition pdfReader :: reader_instance where
  "pdfReader = exampleReader ''pdf'' (Some (exampleFrame (Some 7) NoLoad))"

text \<open>
  A PDF reader whose frame has no \<^verbatim>\<open>#viewerContainer\<close>, neither at the call nor when
  the load event fires.
\<close>

definition emptyFrameReader :: reader_instance where
  "emptyFrameReader =
     exampleReader ''pdf'' (Some (exampleFrame None (Load (Some \<lparr> viewerContainer = None \<rparr>))))"

text \<open>An EPUB reader: no PDF viewer frame in its document.\<close>

definition epubReader :: reader_instance where
  "epubReader = exampleReader ''epub'' None"

definition exampleStringify :: "scroll_target \<Rightarrow> string" where
  "exampleStringify t = ''{}''"

section \<open>Basic facts\<close>

lemmas example_defs = pdfReader_def emptyFrameReader_def epubReader_def exampleReader_def
  exampleFrame_def freshControl_def nativeView_def newWorld_def exampleOptions_def
  constructor_def pageAt_def viewerAt_def

lemmas attach_defs = locateFrame_def isIframe_def toUpperCase_def upperChar_def
  awaitViewerContainer_def getViewerContainer_def queryViewerContainer_def onLoad_def
  resolve_def notReady_def log'_def emit_def installListeners_def addEventListener_def
  installOverrides_def lookupPdfViewer_def lookupEventBus_def Let_def

lemma plugin_emit: "plugin (emit e w) = plugin w"
  by (simp add: emit_def)

lemma plugin_log: "plugin (log' a m w) = plugin w"
  by (simp add: log'_def plugin_emit)

lemma closures_log: "closures (log' a m w) = closures w"
  by (simp add: log'_def emit_def)

lemma plugin_centerCurrentPage: "plugin (centerCurrentPage a s v w) = plugin w"
  by (simp add: centerCurrentPage_def plugin_log plugin_emit Let_def split: option.split)

lemma plugin_startup: "plugin (startup a w) = plugin w"
  by (simp add: startup_def plugin_log plugin_emit)

lemma plugin_shutdown: "plugin (shutdown a w) = plugin w"
  by (simp add: shutdown_def plugin_log plugin_emit)

lemma plugin_notReady: "plugin (notReady a r w) = plugin w"
  by (simp add: notReady_def plugin_log)

lemma plugin_addListeners_listener: "plugin (snd (snd (addListeners_listener a r w))) = plugin w"
  by (simp add: addListeners_listener_def Let_def plugin_log plugin_notReady
      split: signal.split option.split prod.split promise.split)

lemma plugin_addListeners_override: "plugin (snd (snd (addListeners_override a r w))) = plugin w"
  by (simp add: addListeners_override_def Let_def plugin_log plugin_notReady
      split: signal.split option.split prod.split promise.split)

lemma plugin_perform: "plugin (perform var a s op w) = plugin w"
  by (cases var; cases op)
     (simp_all add: plugin_startup plugin_shutdown plugin_log plugin_centerCurrentPage
        plugin_addListeners_listener plugin_addListeners_override
        onRenderToolbar_listener_def onRenderToolbar_override_def)

lemma plugin_run: "plugin (run var a s ops w) = plugin w"
  by (induction ops arbitrary: w) (simp_all add: plugin_perform)

subsection \<open>Rounding to a double\<close>

lemma roundHalfEven_of_int: "roundHalfEven (of_int n) = n"
  by (simp add: roundHalfEven_def)

lemma roundHalfEven_ge: "of_int n \<le> q \<Longrightarrow> n \<le> roundHalfEven q"
proof -
  assume "of_int n \<le> q"
  then have "n \<le> \<lfloor>q\<rfloor>" by (simp add: le_floor_iff)
  then show ?thesis by (simp add: roundHalfEven_def Let_def)
qed

lemma roundHalfEven_le: "q \<le> of_int n \<Longrightarrow> roundHalfEven q \<le> n"
proof -
  assume a: "q \<le> of_int n"
  show ?thesis
  proof (cases "q = of_int n")
    case True
    then show ?thesis by (simp add: roundHalfEven_of_int)
  next
    case False
    with a have "q < of_int n" by simp
    then have "\<lfloor>q\<rfloor> < n" by (simp add: floor_less_iff)
    then show ?thesis by (simp add: roundHalfEven_def Let_def)
  qed
qed

lemma leastExponent_SomeD:
  assumes "leastExponent lo hi x = Some e"
  shows "lo \<le> e" "e \<le> hi" "\<bar>x\<bar> < 2 powi (e + 53)"
    "lo < e \<Longrightarrow> 2 powi (e + 52) \<le> \<bar>x\<bar>"
proof -
  from assms obtain i where i: "i < length [lo..hi]"
    "\<bar>x\<bar> < 2 powi ([lo..hi] ! i + 53)" "e = [lo..hi] ! i"
    "\<forall>j<i. \<not> \<bar>x\<bar> < 2 powi ([lo..hi] ! j + 53)"
    unfolding leastExponent_def find_Some_iff by blast
  from i(1) have il: "lo + int i \<le> hi" by simp
  then have nth: "\<And>j. j \<le> i \<Longrightarrow> [lo..hi] ! j = lo + int j"
    by (intro nth_upto) simp
  from nth [of i] i(3) have e: "e = lo + int i" by simp
  with il show "lo \<le> e" "e \<le> hi" by simp_all
  from i(2,3) show "\<bar>x\<bar> < 2 powi (e + 53)" by simp
  assume "lo < e"
  with e obtain j where j: "i = Suc j" by (cases i) auto
  with i(4) have "\<not> \<bar>x\<bar> < 2 powi ([lo..hi] ! j + 53)" by simp
  moreover from nth [of j] j e have "[lo..hi] ! j + 53 = e + 52" by simp
  ultimately show "2 powi (e + 52) \<le> \<bar>x\<bar>" by simp
qed

lemma leastExponent_defined:
  assumes "lo \<le> hi" "\<bar>x\<bar> < 2 powi (hi + 53)"
  shows "\<exists>e. leastExponent lo hi x = Some e"
proof -
  from assms(1) have "hi \<in> set [lo..hi]" by simp
  with assms(2) have "List.find (\<lambda>e. \<bar>x\<bar> < 2 powi (e + 53)) [lo..hi] \<noteq> None"
    unfolding find_None_iff by blast
  then show ?thesis by (auto simp add: leastExponent_def)
qed

lemma ulpExponent_SomeD:
  assumes "ulpExponent x = Some e"
  shows "- 1074 \<le> e" "e \<le> 971" "\<bar>x\<bar> < 2 powi (e + 53)"
    "- 1074 < e \<Longrightarrow> 2 powi (e + 52) \<le> \<bar>x\<bar>"
  using leastExponent_SomeD [OF assms [unfolded ulpExponent_def]] by blast+

lemma ulpExponent_defined:
  assumes "\<bar>x\<bar> < 2 powi 1024"
  shows "\<exists>e. ulpExponent x = Some e"
  unfolding ulpExponent_def using assms by (intro leastExponent_defined) simp_all

lemma two_powi_nonpos: "e \<le> 0 \<Longrightarrow> (2::rat) powi e = 1 / 2 ^ nat (- e)"
  by (simp add: power_int_def power_one_over)

text \<open>A value of 5 or more in absolute value does not round to one below 5.\<close>

lemma roundDouble_threshold:
  assumes "5 \<le> \<bar>x\<bar>" and "roundDouble x = Some y"
  shows "5 \<le> \<bar>y\<bar>"
proof -
  from assms(2) obtain e where e: "ulpExponent x = Some e"
    and y: "y = of_int (roundHalfEven (x / 2 powi e)) * 2 powi e"
    by (auto simp add: roundDouble_def Let_def split: option.splits if_splits)
  note b = ulpExponent_SomeD [OF e]
  have pos: "(0::rat) < 2 powi e" by (simp add: zero_less_power_int)
  define c :: int where "c = (if e \<le> 0 then 5 * 2 ^ nat (- e) else 2 ^ 52)"
  have c5: "5 \<le> (of_int c :: rat) * 2 powi e"
  proof (cases "e \<le> 0")
    case True
    then have "(2::rat) powi e = 1 / 2 ^ nat (- e)" by (rule two_powi_nonpos)
    with True show ?thesis by (simp add: c_def)
  next
    case False
    then have p: "(1::rat) \<le> 2 powi e" by (simp add: one_le_power_int)
    have "(5::rat) \<le> 2 ^ 52 * 1" by simp
    also from p have "(2 ^ 52 :: rat) * 1 \<le> 2 ^ 52 * 2 powi e" by (rule mult_left_mono) simp
    finally show ?thesis using False by (simp add: c_def)
  qed
  have cx: "(of_int c :: rat) * 2 powi e \<le> \<bar>x\<bar>"
  proof (cases "e \<le> 0")
    case True
    then have "(2::rat) powi e = 1 / 2 ^ nat (- e)" by (rule two_powi_nonpos)
    with True assms(1) show ?thesis by (simp add: c_def)
  next
    case False
    then have "- 1074 < e" by simp
    from b(4) [OF this] have "2 powi (e + 52) \<le> \<bar>x\<bar>" .
    moreover have "(2::rat) powi (e + 52) = 2 ^ 52 * 2 powi e"
      by (simp add: power_int_add)
    ultimately show ?thesis using False by (simp add: c_def)
  qed
  from cx pos have q: "of_int c \<le> \<bar>x\<bar> / 2 powi e" by (simp add: pos_le_divide_eq)
  show ?thesis
  proof (cases "0 \<le> x")
    case True
    with q have "of_int c \<le> x / 2 powi e" by simp
    then have "c \<le> roundHalfEven (x / 2 powi e)" by (rule roundHalfEven_ge)
    then have "(of_int c :: rat) \<le> of_int (roundHalfEven (x / 2 powi e))" by simp
    then have "(of_int c :: rat) * 2 powi e \<le> of_int (roundHalfEven (x / 2 powi e)) * 2 powi e"
      using pos by (intro mult_right_mono) simp_all
    then have "of_int c * 2 powi e \<le> y" unfolding y .
    with c5 show ?thesis by simp
  next
    case False
    with q have "x / 2 powi e \<le> of_int (- c)" by (simp add: abs_if)
    then have "roundHalfEven (x / 2 powi e) \<le> - c" by (rule roundHalfEven_le)
    then have "(of_int (roundHalfEven (x / 2 powi e)) :: rat) \<le> of_int (- c)"
      by (simp only: of_int_le_iff)
    then have "of_int (roundHalfEven (x / 2 powi e)) * 2 powi e \<le> (of_int (- c) :: rat) * 2 powi e"
      using pos by (intro mult_right_mono) simp_all
    then have "y \<le> - (of_int c * 2 powi e)" unfolding y by simp
    with c5 show ?thesis by simp
  qed
qed

text \<open>A finite double rounds to itself; so does every integer below \<open>2 ^ 53\<close>.\<close>

lemma roundDouble_exact:
  assumes m: "\<bar>m\<bar> < 2 ^ 53" and k: "- 1074 \<le> k"
    and r: "\<bar>of_int m * 2 powi k :: rat\<bar> < 2 powi 1024"
  shows "roundDouble (of_int m * 2 powi k) = Some (of_int m * 2 powi k)"
proof -
  let ?x = "of_int m * 2 powi k :: rat"
  from ulpExponent_defined [OF r] obtain e where e: "ulpExponent ?x = Some e" by blast
  note b = ulpExponent_SomeD [OF e]
  have ek: "e \<le> k"
  proof (rule ccontr)
    assume "\<not> e \<le> k"
    then have ke: "k + 53 \<le> e + 52" by simp
    with k have "- 1074 < e" by simp
    from b(4) [OF this] have "2 powi (e + 52) \<le> \<bar>?x\<bar>" .
    moreover have "\<bar>?x\<bar> < 2 powi (k + 53)"
    proof -
      have "\<bar>?x\<bar> = of_int \<bar>m\<bar> * 2 powi k" by (simp add: abs_mult)
      also from m have "(of_int \<bar>m\<bar> :: rat) < 2 ^ 53"
        by (metis of_int_less_numeral_power_cancel_iff)
      then have "of_int \<bar>m\<bar> * 2 powi k < (2 ^ 53 :: rat) * 2 powi k"
        by (intro mult_strict_right_mono) (simp_all add: zero_less_power_int)
      also have "(2 ^ 53 :: rat) * 2 powi k = 2 powi (k + 53)"
        by (simp add: power_int_add)
      finally show ?thesis .
    qed
    moreover from ke have "(2::rat) powi (k + 53) \<le> 2 powi (e + 52)"
      by (intro power_int_increasing) simp_all
    ultimately show False by simp
  qed
  then have "(2::rat) powi k = 2 powi (k - e) * 2 powi e"
    by (simp flip: power_int_add)
  moreover from ek have "(2::rat) powi (k - e) = of_int (2 ^ nat (k - e))"
    by (simp add: power_int_def)
  ultimately have "?x / 2 powi e = of_int (m * 2 ^ nat (k - e))"
    by (simp add: zero_less_power_int)
  then have "of_int (roundHalfEven (?x / 2 powi e)) * 2 powi e = ?x / 2 powi e * 2 powi e"
    by (simp only: roundHalfEven_of_int)
  also have "\<dots> = ?x" by simp
  finally have "of_int (roundHalfEven (?x / 2 powi e)) * 2 powi e = ?x" .
  with e r show ?thesis by (simp add: roundDouble_def Let_def)
qed

lemma roundDouble_of_int:
  assumes "\<bar>m\<bar> < 2 ^ 53"
  shows "roundDouble (of_int m) = Some (of_int m)"
proof -
  from assms have "(of_int \<bar>m\<bar> :: rat) < 2 ^ 53"
    by (metis of_int_less_numeral_power_cancel_iff)
  also have "(2 ^ 53 :: rat) < 2 powi 1024" by simp
  finally have "\<bar>of_int m * 2 powi 0 :: rat\<bar> < 2 powi 1024" by simp
  from roundDouble_exact [OF assms _ this] show ?thesis by simp
qed


lemma leastExponent_eq:
  assumes "lo \<le> e" "e \<le> hi" "\<bar>x\<bar> < 2 powi (e + 53)" "e = lo \<or> 2 powi (e + 52) \<le> \<bar>x\<bar>"
  shows "leastExponent lo hi x = Some e"
proof -
  from assms(2) have "(2::rat) powi (e + 53) \<le> 2 powi (hi + 53)"
    by (intro power_int_increasing) simp_all
  with assms(3) have "\<bar>x\<bar> < 2 powi (hi + 53)" by simp
  with assms(1,2) obtain e' where e': "leastExponent lo hi x = Some e'"
    using leastExponent_defined [of lo hi x] by auto
  note b = leastExponent_SomeD [OF e']
  have "\<not> e < e'"
  proof
    assume l: "e < e'"
    with assms(1) have "lo < e'" by simp
    from b(4) [OF this] have "2 powi (e' + 52) \<le> \<bar>x\<bar>" .
    moreover from l have "(2::rat) powi (e + 53) \<le> 2 powi (e' + 52)"
      by (intro power_int_increasing) simp_all
    ultimately show False using assms(3) by simp
  qed
  moreover have "\<not> e' < e"
  proof
    assume l: "e' < e"
    with b(1) assms(4) have "2 powi (e + 52) \<le> \<bar>x\<bar>" by auto
    moreover from l have "(2::rat) powi (e' + 53) \<le> 2 powi (e + 52)"
      by (intro power_int_increasing) simp_all
    ultimately show False using b(3) by simp
  qed
  ultimately show ?thesis using e' by simp
qed

lemma roundDouble_zero: "roundDouble 0 = Some 0"
  using roundDouble_of_int [of 0] by simp

lemma roundDouble_numeral:
  "numeral n < (2 ^ 53 :: int) \<Longrightarrow> roundDouble (numeral n) = Some (numeral n)"
  using roundDouble_of_int [of "numeral n"] by simp

lemma roundDouble_neg_numeral:
  "numeral n < (2 ^ 53 :: int) \<Longrightarrow> roundDouble (- numeral n) = Some (- numeral n)"
  using roundDouble_of_int [of "- numeral n"] by simp

lemmas nearTop_eval = nearTop_def roundDouble_zero roundDouble_numeral roundDouble_neg_numeral

subsection \<open>The computed test and the distance\<close>

text \<open>A page that passes the computed test is less than 5 units away.\<close>

lemma nearTop_withinTolerance: "nearTop v p \<Longrightarrow> withinTolerance v p"
proof (rule ccontr)
  assume n: "nearTop v p" and "\<not> withinTolerance v p"
  then have 5: "5 \<le> \<bar>of_int (offsetTop p) - scrollTop v\<bar>"
    by (simp add: withinTolerance_def)
  from n obtain d where d: "roundDouble (of_int (offsetTop p) - scrollTop v) = Some d" "\<bar>d\<bar> < 5"
    by (auto simp add: nearTop_def split: option.splits)
  from roundDouble_threshold [OF 5 d(1)] d(2) show False by simp
qed


lemma roundHalfEven_up: "of_int n - 1 / 2 < q \<Longrightarrow> q \<le> of_int n \<Longrightarrow> roundHalfEven q = n"
proof (cases "q = of_int n")
  case True
  then show ?thesis by (simp add: roundHalfEven_of_int)
next
  case False
  assume a: "of_int n - 1 / 2 < q" "q \<le> of_int n"
  with False have "of_int (n - 1) \<le> q" "q < of_int (n - 1) + 1" by simp_all
  then have f: "\<lfloor>q\<rfloor> = n - 1" by (simp add: floor_unique)
  with a have "1 / 2 < q - of_int \<lfloor>q\<rfloor>" by simp
  with f show ?thesis by (simp add: roundHalfEven_def Let_def)
qed

text \<open>
  Where the subtraction rounds, the two tests can differ: with \<open>scrollTop = 1 / 2 ^ 60\<close>
  and a page at \<open>offsetTop = 5\<close> the distance is below 5, the computed difference is 5
  and the page is not the current page.
\<close>

lemma rounding_example:
  "withinTolerance (viewerAt (1 / 2 ^ 60) [pageAt 5]) (pageAt 5)
   \<and> \<not> nearTop (viewerAt (1 / 2 ^ 60) [pageAt 5]) (pageAt 5)
   \<and> getCurrentPage (viewerAt (1 / 2 ^ 60) [pageAt 5]) = None"
proof -
  let ?x = "5 - 1 / 2 ^ 60 :: rat"
  have e: "ulpExponent ?x = Some (- 50)"
    unfolding ulpExponent_def by (rule leastExponent_eq) simp_all
  have q: "?x / 2 powi (- 50) = of_int (5 * 2 ^ 50) - 1 / 2 ^ 10" by simp
  have "roundHalfEven (?x / 2 powi (- 50)) = 5 * 2 ^ 50"
    unfolding q by (rule roundHalfEven_up) simp_all
  with e have "roundDouble ?x = Some 5" by (simp add: roundDouble_def Let_def)
  then show ?thesis
    by (simp add: getCurrentPage_def nearTop_def withinTolerance_def viewerAt_def pageAt_def)
qed

lemma firstNearTop_None: "firstNearTop v ps = None \<longleftrightarrow> (\<forall>p \<in> set ps. \<not> nearTop v p)"
  by (induction ps) auto

text \<open>The tolerance is strict: a page exactly 5 units away is not the current page.\<close>

lemma nearTop_boundary:
  "getCurrentPage (viewerAt 1200 [pageAt 1195, pageAt 1205]) = None"
  by (simp add: getCurrentPage_def viewerAt_def pageAt_def nearTop_eval)

text \<open>
  The subtraction is exact whenever \<open>scrollTop\<close> is an integer or a binary fraction
  \<open>m / 2 ^ k\<close> and the difference needs no more than 53 bits.
\<close>

lemma exactDifference_dyadic:
  assumes s: "scrollTop v = of_int m / 2 ^ k" and k: "k \<le> 1074"
    and b: "\<bar>offsetTop p * 2 ^ k - m\<bar> < 2 ^ 53"
  shows "exactDifference v p"
proof -
  let ?n = "offsetTop p * 2 ^ k - m"
  have p: "(2::rat) powi (- int k) = 1 / 2 ^ k"
    by (simp add: power_int_minus_divide)
  have d: "of_int (offsetTop p) - scrollTop v = of_int ?n * 2 powi (- int k)"
    unfolding p s by (simp add: field_simps)
  have "\<bar>of_int ?n * 2 powi (- int k) :: rat\<bar> \<le> \<bar>of_int ?n\<bar> * 1"
    unfolding abs_mult p by (intro mult_left_mono) (simp_all add: field_simps)
  also from b have "(of_int \<bar>?n\<bar> :: rat) < 2 ^ 53"
    by (metis of_int_less_numeral_power_cancel_iff)
  then have "\<bar>of_int ?n :: rat\<bar> * 1 < 2 ^ 53" by simp
  also have "(2 ^ 53 :: rat) < 2 powi 1024" by simp
  finally have r: "\<bar>of_int ?n * 2 powi (- int k) :: rat\<bar> < 2 powi 1024" .
  from k have "- 1074 \<le> - int k" by simp
  from roundDouble_exact [OF b this r] show ?thesis
    unfolding exactDifference_def d .
qed


lemma centerCurrentPage_None:
  "getCurrentPage viewer = None \<Longrightarrow>
   centerCurrentPage a s viewer w =
     w\<lparr>trace := trace w @ [Debug (''['' @ a @ ''] couldn't identify current page'')]\<rparr>"
  by (simp add: centerCurrentPage_def log'_def emit_def)

lemma scrollCalls_Debug: "scrollCalls (w\<lparr>trace := trace w @ [Debug m]\<rparr>) = scrollCalls w"
  by (simp add: scrollCalls_def)

section \<open>The geometry functions\<close>

text \<open>
  Claim C1. For every viewport element \<open>V\<close> and page element \<open>P\<close>,
  \<^verbatim>\<open>getScrollTarget(V, P)\<close> (the same text in both variants) returns exactly
  \<open>top = P.offsetTop + (P.clientHeight - V.clientHeight) / 2\<close> and
  \<open>left = P.offsetLeft + (P.clientWidth - V.clientWidth) / 2\<close>, whatever the sign of the
  slack; and a page of width 400 at \<open>offsetLeft = 200\<close> in a viewport of width 800 gets
  \<open>left = 0\<close>.
\<close>

theorem getScrollTarget_exact:
  "getScrollTarget V P =
     \<lparr> top' = of_int (offsetTop P) + of_int (clientHeight P - clientHeight V) / 2,
       left' = of_int (offsetLeft P) + of_int (clientWidth P - clientWidth V) / 2 \<rparr>
   \<and> left' (getScrollTarget (V\<lparr>clientWidth := 800\<rparr>)
              (P\<lparr>clientWidth := 400, offsetLeft := 200\<rparr>)) = 0"
  by (simp add: getScrollTarget_def Let_def)



text \<open>
  Claim C4. If no page of the viewport's page list is within the tolerance of
  \<open>scrollTop\<close>, that is, less than 5 units away from it (the empty list included),
  \<^verbatim>\<open>getCurrentPage\<close> returns none, and
  \<^verbatim>\<open>centerCurrentPage\<close> on that viewport only logs
  \<^verbatim>\<open>couldn't identify current page\<close>: it adds no other effect, so it makes no
  \<^verbatim>\<open>scrollTo\<close> call and the scroll position stays as it is.
\<close>

theorem no_current_page_no_scroll:
  assumes "\<forall>p \<in> set (pages viewer). \<not> withinTolerance viewer p"
  shows "getCurrentPage viewer = None
       \<and> centerCurrentPage a s viewer w =
           w\<lparr>trace := trace w @ [Debug (''['' @ a @ ''] couldn't identify current page'')]\<rparr>
       \<and> scrollCalls (centerCurrentPage a s viewer w) = scrollCalls w"
proof -
  from assms have "\<forall>p \<in> set (pages viewer). \<not> nearTop viewer p"
    using nearTop_withinTolerance by blast
  then have "getCurrentPage viewer = None"
    by (simp add: getCurrentPage_def firstNearTop_None)
  then show ?thesis
    by (simp add: centerCurrentPage_None scrollCalls_Debug)
qed

theorem no_current_page_no_scroll_witness:
  "list_all (\<lambda>p. \<not> withinTolerance (viewerAt 1200 [pageAt 0, pageAt 600, pageAt 1800]) p)
      (pages (viewerAt 1200 [pageAt 0, pageAt 600, pageAt 1800]))
   \<and> getCurrentPage (viewerAt 1200 [pageAt 0, pageAt 600, pageAt 1800]) = None
   \<and> trace (centerCurrentPage ''addon'' exampleStringify
        (viewerAt 1200 [pageAt 0, pageAt 600, pageAt 1800]) (newWorld exampleOptions))
       = [Debug ''[addon] couldn't identify current page'']
   \<and> getCurrentPage (viewerAt 1200 []) = None
   \<and> scrollCalls (centerCurrentPage ''addon'' exampleStringify (viewerAt 1200 [])
        (newWorld exampleOptions)) = []"
proof -
  have h: "\<forall>p \<in> set (pages (viewerAt 1200 [pageAt 0, pageAt 600, pageAt 1800])).
      \<not> withinTolerance (viewerAt 1200 [pageAt 0, pageAt 600, pageAt 1800]) p"
    by (simp add: viewerAt_def pageAt_def withinTolerance_def)
  have e: "\<forall>p \<in> set (pages (viewerAt 1200 [])). \<not> withinTolerance (viewerAt 1200 []) p"
    by (simp add: viewerAt_def)
  from h no_current_page_no_scroll [OF h, of "''addon''" exampleStringify "newWorld exampleOptions"]
    no_current_page_no_scroll [OF e, of "''addon''" exampleStringify "newWorld exampleOptions"]
  show ?thesis by (simp add: newWorld_def scrollCalls_def list_all_iff)
qed

section \<open>Waiting for the viewport container\<close>

text \<open>
  Claim C8. \<^verbatim>\<open>getViewerContainer\<close> resolves at once with the container when the
  frame's content document already has \<^verbatim>\<open>#viewerContainer\<close>: no load listener is
  registered and a load event plays no part. Otherwise the promise stays pending until
  the frame's load event; the listener then queries once more (the second query in all)
  and resolves with the container if it is there now and with none if it is not; a later
  load event cannot change the settled promise. The promise never rejects.
\<close>

theorem getViewerContainer_resolution:
  "(queryViewerContainer (contentDocument iframe) = Some v \<longrightarrow>
      getViewerContainer iframe =
        \<lparr> promise = Fulfilled (Some v), loadListener = False, queries = 1 \<rparr>
    \<and> awaitViewerContainer iframe = getViewerContainer iframe)
 \<and> (queryViewerContainer (contentDocument iframe) = None \<longrightarrow>
      getViewerContainer iframe = \<lparr> promise = Pending, loadListener = True, queries = 1 \<rparr>
    \<and> (loadEvent iframe = NoLoad \<longrightarrow> promise (awaitViewerContainer iframe) = Pending)
    \<and> (loadEvent iframe = Load d \<longrightarrow>
          awaitViewerContainer iframe =
            \<lparr> promise = Fulfilled (queryViewerContainer d), loadListener = True, queries = 2 \<rparr>)
    \<and> promise (onLoad d' (onLoad d (getViewerContainer iframe)))
          = Fulfilled (queryViewerContainer d))
 \<and> promise (getViewerContainer iframe) \<noteq> Failed
 \<and> promise (awaitViewerContainer iframe) \<noteq> Failed"
  by (auto simp add: getViewerContainer_def awaitViewerContainer_def onLoad_def resolve_def
      split: option.split load_event.split)

theorem getViewerContainer_resolution_witness:
  "getViewerContainer (exampleFrame (Some 7) NoLoad) =
     \<lparr> promise = Fulfilled (Some 7), loadListener = False, queries = 1 \<rparr>
   \<and> awaitViewerContainer (exampleFrame (Some 7) (Load None)) =
     \<lparr> promise = Fulfilled (Some 7), loadListener = False, queries = 1 \<rparr>
   \<and> promise (awaitViewerContainer (exampleFrame None NoLoad)) = Pending
   \<and> awaitViewerContainer (exampleFrame None (Load (Some \<lparr> viewerContainer = Some 7 \<rparr>))) =
     \<lparr> promise = Fulfilled (Some 7), loadListener = True, queries = 2 \<rparr>
   \<and> awaitViewerContainer (exampleFrame None (Load (Some \<lparr> viewerContainer = None \<rparr>))) =
     \<lparr> promise = Fulfilled None, loadListener = True, queries = 2 \<rparr>"
  using getViewerContainer_resolution [of "exampleFrame (Some 7) NoLoad" 7]
    getViewerContainer_resolution [of "exampleFrame (Some 7) (Load None)" 7]
    getViewerContainer_resolution [of "exampleFrame None NoLoad"]
    getViewerContainer_resolution
      [of "exampleFrame None (Load (Some \<lparr> viewerContainer = Some 7 \<rparr>))" _
          "Some \<lparr> viewerContainer = Some 7 \<rparr>"]
    getViewerContainer_resolution
      [of "exampleFrame None (Load (Some \<lparr> viewerContainer = None \<rparr>))" _
          "Some \<lparr> viewerContainer = None \<rparr>"]
  by (simp add: exampleFrame_def queryViewerContainer_def)

section \<open>The plugin object over its lifetime\<close>

text \<open>
  Claim C9. The four configuration values are fixed at construction and never change:
  each operation of the plugin (\<^verbatim>\<open>startup\<close>, \<^verbatim>\<open>shutdown\<close>,
  \<^verbatim>\<open>onRenderToolbar\<close>, \<^verbatim>\<open>addListeners\<close>, \<^verbatim>\<open>centerCurrentPage\<close>,
  \<^verbatim>\<open>log\<close>), in either variant, leaves \<open>id\<close>, \<open>version\<close>, \<open>rootURI\<close> and
  \<open>stylesId\<close> as they were, and after any sequence of operations they still have the
  values the constructor gave them.
\<close>

theorem configuration_immutable:
  "id' (plugin (perform var a s op w)) = id' (plugin w)
   \<and> version (plugin (perform var a s op w)) = version (plugin w)
   \<and> rootURI (plugin (perform var a s op w)) = rootURI (plugin w)
   \<and> stylesId (plugin (perform var a s op w)) = stylesId (plugin w)
   \<and> id' (plugin (run var a s ops (newWorld opts))) = id' (constructor opts)
   \<and> version (plugin (run var a s ops (newWorld opts))) = opt_version opts
   \<and> rootURI (plugin (run var a s ops (newWorld opts))) = opt_rootURI opts
   \<and> stylesId (plugin (run var a s ops (newWorld opts))) = stylesId (constructor opts)"
  by (simp add: plugin_perform plugin_run newWorld_def constructor_def)

text \<open>
  Claim C10. The \<open>isActive\<close> getter returns true for the whole lifetime of a plugin
  instance: the field is true after construction and after any sequence of operations,
  also one that ends with \<^verbatim>\<open>shutdown\<close>.
\<close>

theorem isActive_always_true:
  "isActive (constructor opts)
   \<and> isActive (plugin (run var a s ops (newWorld opts)))
   \<and> isActive (plugin (run var a s (ops @ [Shutdown]) (newWorld opts)))"
  by (simp add: plugin_run newWorld_def constructor_def)

section \<open>Render notifications for other kinds of reader\<close>

lemma onRenderToolbar_override_other_kind:
  "reader_type r \<noteq> ''pdf'' \<Longrightarrow> onRenderToolbar_override a r w = (Returned, r, w)"
  by (simp add: onRenderToolbar_override_def isPDFReader_def)

text \<open>
  Claim C5. A render notification for a reader whose kind is not \<^verbatim>\<open>'pdf'\<close> should
  start nothing. The override variant tests the kind and does nothing then (lemma
  \<open>onRenderToolbar_override_other_kind\<close>). The handler of \<^verbatim>\<open>src/plugin.ts\<close> has
  no such test: for an EPUB reader it starts \<^verbatim>\<open>addListeners\<close>, which logs, waits for
  the readiness signals, looks for the PDF viewer frame and logs that the tab is not
  ready.
\<close>

theorem onRenderToolbar_listener_epub:
  "reader_type epubReader = ''epub''
   \<and> onRenderToolbar_override ''addon'' epubReader (newWorld exampleOptions) =
       (Returned, epubReader, newWorld exampleOptions)
   \<and> onRenderToolbar_listener ''addon'' epubReader (newWorld exampleOptions) =
       (Returned, epubReader,
        (newWorld exampleOptions)\<lparr>trace :=
           [Debug ''[addon] adding page listeners'',
            Debug ''[addon] couldn't attach styles; tab tab-1 not ready'']\<rparr>)"
  by (simp add: onRenderToolbar_listener_def onRenderToolbar_override_def isPDFReader_def
      addListeners_listener_def example_defs attach_defs)

section \<open>Facts about the two attachment functions\<close>

lemma ready_iframeWindow: "ready (r\<lparr>iframeWindow := x\<rparr>) = ready r"
  by (simp add: ready_def)

lemma ready_lastView: "ready (r\<lparr>lastView := lv\<rparr>) = ready r"
  by (simp add: ready_def)

lemma locateFrame_lastView: "locateFrame (r\<lparr>lastView := lv\<rparr>) = locateFrame r"
  by (simp add: locateFrame_def)

lemma locateFrame_installed:
  assumes "locateFrame r = Some (doc, iframe)"
  shows "locateFrame (r\<lparr>iframeWindow := Some \<lparr>document = installListeners h doc\<rparr>\<rparr>)
           = Some (installListeners h doc, iframe)"
  using assms
  by (auto simp add: locateFrame_def installListeners_def split: option.splits if_splits)

lemma lookupPdfViewer_installed: "lookupPdfViewer (installOverrides v lv) = lookupPdfViewer lv"
  by (simp add: lookupPdfViewer_def installOverrides_def)

lemma lookupEventBus_installed: "lookupEventBus (installOverrides v lv) = lookupEventBus lv"
  by (simp add: lookupEventBus_def installOverrides_def)

lemma installOverrides_twice: "installOverrides v (installOverrides v lv) = installOverrides v lv"
  by (simp add: installOverrides_def)

lemma addListeners_listener_attaches:
  assumes "ready r" "locateFrame r = Some (doc, iframe)"
    "promise (awaitViewerContainer iframe) = Fulfilled (Some v)"
  shows "addListeners_listener a r w =
     (Returned,
      r\<lparr>iframeWindow := Some \<lparr>document = installListeners (CenterLater (closures w) v) doc\<rparr>\<rparr>,
      log' a ''added page listeners''
        ((log' a ''adding page listeners'' w)\<lparr>closures := Suc (closures w)\<rparr>))"
  using assms by (simp add: addListeners_listener_def ready_def Let_def log'_def emit_def)

lemma addListeners_override_attaches:
  assumes "ready r" "locateFrame r = Some (doc, iframe)"
    "promise (awaitViewerContainer iframe) = Fulfilled (Some v)"
    "lookupPdfViewer (lastView r) = Some pv" "lookupEventBus (lastView r) = Some eb"
  shows "addListeners_override a r w =
     (Returned, r\<lparr>lastView := installOverrides v (lastView r)\<rparr>,
      log' a ''added page listeners'' (log' a ''adding page listeners'' w))"
  using assms by (simp add: addListeners_override_def ready_def Let_def)

lemma addListeners_no_frame:
  assumes "ready r" "locateFrame r = None"
  shows "addListeners_listener a r w =
           (Returned, r, notReady a r (log' a ''adding page listeners'' w))"
    and "addListeners_override a r w =
           (Returned, r, notReady a r (log' a ''adding page listeners'' w))"
  using assms
  by (simp_all add: addListeners_listener_def addListeners_override_def ready_def Let_def)

lemma addListeners_no_viewport:
  assumes "ready r" "locateFrame r = Some (doc, iframe)"
    "promise (awaitViewerContainer iframe) = Fulfilled None"
  shows "addListeners_listener a r w = (Returned, r, log' a ''adding page listeners'' w)"
    and "addListeners_override a r w = (Returned, r, log' a ''adding page listeners'' w)"
  using assms
  by (simp_all add: addListeners_listener_def addListeners_override_def ready_def Let_def)

lemma addListeners_override_no_controls:
  assumes "ready r" "locateFrame r = Some (doc, iframe)"
    "promise (awaitViewerContainer iframe) = Fulfilled (Some v)"
    "lookupPdfViewer (lastView r) = None \<or> lookupEventBus (lastView r) = None"
  shows "addListeners_override a r w = (Returned, r, log' a ''adding page listeners'' w)"
  using assms
  by (cases "lookupPdfViewer (lastView r)"; cases "lookupEventBus (lastView r)")
     (simp_all add: addListeners_override_def ready_def Let_def)

lemma addListeners_override_reader:
  "fst (snd (addListeners_override a r w)) =
     (case overrideTarget r of
        None \<Rightarrow> r
      | Some v \<Rightarrow> r\<lparr>lastView := installOverrides v (lastView r)\<rparr>)"
proof (cases "ready r")
  case False
  then show ?thesis
    by (simp add: addListeners_override_def overrideTarget_def ready_def Let_def split: signal.split)
next
  case True
  show ?thesis
  proof (cases "locateFrame r")
    case None
    with True show ?thesis
      by (simp add: addListeners_no_frame overrideTarget_def)
  next
    case (Some p)
    obtain doc iframe where p: "p = (doc, iframe)" by (cases p)
    with Some have lf: "locateFrame r = Some (doc, iframe)" by simp
    show ?thesis
    proof (cases "promise (awaitViewerContainer iframe)")
      case Pending
      with True lf show ?thesis
        by (simp add: addListeners_override_def overrideTarget_def ready_def Let_def)
    next
      case Failed
      with True lf show ?thesis
        by (simp add: addListeners_override_def overrideTarget_def ready_def Let_def)
    next
      case (Fulfilled viewer)
      show ?thesis
      proof (cases viewer)
        case None
        with True lf Fulfilled show ?thesis
          by (simp add: addListeners_no_viewport overrideTarget_def)
      next
        case v: (Some v)
        show ?thesis
        proof (cases "lookupPdfViewer (lastView r) = None \<or> lookupEventBus (lastView r) = None")
          case c: True
          from True lf Fulfilled v have
            "addListeners_override a r w = (Returned, r, log' a ''adding page listeners'' w)"
            using c by (simp add: addListeners_override_no_controls)
          with c show ?thesis by (auto simp add: overrideTarget_def)
        next
          case c: False
          then obtain pv eb where "lookupPdfViewer (lastView r) = Some pv"
            "lookupEventBus (lastView r) = Some eb" by auto
          with True lf Fulfilled v show ?thesis
            by (simp add: addListeners_override_attaches overrideTarget_def)
        qed
      qed
    qed
  qed
qed

lemma overrideTarget_installed:
  "overrideTarget (r\<lparr>lastView := installOverrides v (lastView r)\<rparr>) = overrideTarget r"
  unfolding overrideTarget_def
  by (auto simp add: ready_lastView locateFrame_lastView lookupPdfViewer_installed
      lookupEventBus_installed)

lemma override_idempotent:
  "fst (snd (addListeners_override a (fst (snd (addListeners_override a r w))) w'))
     = fst (snd (addListeners_override a r w))"
proof (cases "overrideTarget r")
  case None
  then show ?thesis by (simp add: addListeners_override_reader)
next
  case (Some v)
  then show ?thesis
    by (simp add: addListeners_override_reader overrideTarget_installed installOverrides_twice)
qed

lemma addEventListener_fresh:
  "list_all (\<lambda>l. closureId (snd l) < n) (listeners c) \<Longrightarrow> n \<le> m \<Longrightarrow>
   listeners (addEventListener ty (CenterLater m v) c) = listeners c @ [(ty, CenterLater m v)]"
  by (auto simp add: addEventListener_def list_all_iff)

lemma add_two_fresh:
  assumes "allocatedBefore n c"
  shows "map_option listeners
           (map_option (addEventListener ty (CenterLater (Suc n) v))
              (map_option (addEventListener ty (CenterLater n v)) c))
         = withHandlers ty (CenterLater n v) (CenterLater (Suc n) v) c"
proof (cases c)
  case None
  then show ?thesis by (simp add: withHandlers_def)
next
  case (Some ctl)
  with assms have a: "list_all (\<lambda>l. closureId (snd l) < n) (listeners ctl)"
    by (simp add: allocatedBefore_def)
  have 1: "listeners (addEventListener ty (CenterLater n v) ctl)
      = listeners ctl @ [(ty, CenterLater n v)]"
    using a by (rule addEventListener_fresh) simp
  have "list_all (\<lambda>l. closureId (snd l) < Suc n)
      (listeners (addEventListener ty (CenterLater n v) ctl))"
    using a by (auto simp add: 1 list_all_iff)
  then have "listeners (addEventListener ty (CenterLater (Suc n) v)
        (addEventListener ty (CenterLater n v) ctl))
      = listeners (addEventListener ty (CenterLater n v) ctl) @ [(ty, CenterLater (Suc n) v)]"
    by (rule addEventListener_fresh) simp
  with 1 Some show ?thesis by (simp add: withHandlers_def)
qed

lemma listener_twice:
  assumes "ready r" "locateFrame r = Some (doc, iframe)"
    "promise (awaitViewerContainer iframe) = Fulfilled (Some v)"
  shows "\<exists>w2. twice (addListeners_listener a) r w =
     (Returned,
      r\<lparr>iframeWindow := Some \<lparr>document =
          installListeners (CenterLater (Suc (closures w)) v)
            (installListeners (CenterLater (closures w) v) doc)\<rparr>\<rparr>, w2)"
proof -
  let ?h = "CenterLater (closures w) v"
  let ?r1 = "r\<lparr>iframeWindow := Some \<lparr>document = installListeners ?h doc\<rparr>\<rparr>"
  let ?w1 = "log' a ''added page listeners''
        ((log' a ''adding page listeners'' w)\<lparr>closures := Suc (closures w)\<rparr>)"
  have 1: "addListeners_listener a r w = (Returned, ?r1, ?w1)"
    using assms by (rule addListeners_listener_attaches)
  have r1: "ready ?r1" using assms(1) by (simp add: ready_iframeWindow)
  have l1: "locateFrame ?r1 = Some (installListeners ?h doc, iframe)"
    using assms(2) by (rule locateFrame_installed)
  have c: "closures ?w1 = Suc (closures w)" by (simp add: closures_log)
  from addListeners_listener_attaches [OF r1 l1 assms(3), of a ?w1]
  show ?thesis unfolding twice_def 1 c by simp
qed

lemma awaitViewerContainer_pending:
  "promise (awaitViewerContainer iframe) = Pending \<longleftrightarrow>
     queryViewerContainer (contentDocument iframe) = None \<and> loadEvent iframe = NoLoad"
  by (auto simp add: awaitViewerContainer_def getViewerContainer_def onLoad_def resolve_def
      split: option.splits load_event.splits)

lemma awaitViewerContainer_not_Failed: "promise (awaitViewerContainer iframe) \<noteq> Failed"
  by (auto simp add: awaitViewerContainer_def getViewerContainer_def onLoad_def resolve_def
      split: option.splits load_event.splits)

lemma addListeners_suspended:
  assumes "ready r" "locateFrame r = Some (doc, iframe)"
    "promise (awaitViewerContainer iframe) = Pending"
  shows "addListeners_listener a r w = (Suspended, r, log' a ''adding page listeners'' w)"
    and "addListeners_override a r w = (Suspended, r, log' a ''adding page listeners'' w)"
  using assms
  by (simp_all add: addListeners_listener_def addListeners_override_def ready_def Let_def)

lemma addListeners_never_throw:
  assumes "ready r"
  shows "fst (addListeners_listener a r w) \<noteq> Threw \<and> fst (addListeners_override a r w) \<noteq> Threw"
proof (cases "locateFrame r")
  case None
  with assms show ?thesis by (simp add: addListeners_no_frame)
next
  case (Some p)
  obtain doc iframe where "p = (doc, iframe)" by (cases p)
  with Some have lf: "locateFrame r = Some (doc, iframe)" by simp
  show ?thesis
  proof (cases "promise (awaitViewerContainer iframe)")
    case Pending
    with assms lf show ?thesis by (simp add: addListeners_suspended)
  next
    case Failed
    then show ?thesis by (simp add: awaitViewerContainer_not_Failed)
  next
    case (Fulfilled viewer)
    show ?thesis
    proof (cases viewer)
      case None
      with assms lf Fulfilled show ?thesis by (simp add: addListeners_no_viewport)
    next
      case (Some v)
      with Fulfilled have pr: "promise (awaitViewerContainer iframe) = Fulfilled (Some v)" by simp
      have l: "fst (addListeners_listener a r w) \<noteq> Threw"
        by (simp add: addListeners_listener_attaches [OF assms lf pr])
      have "fst (addListeners_override a r w) \<noteq> Threw"
      proof (cases "lookupPdfViewer (lastView r) = None \<or> lookupEventBus (lastView r) = None")
        case True
        from addListeners_override_no_controls [OF assms lf pr True] show ?thesis by simp
      next
        case False
        then obtain pv eb where "lookupPdfViewer (lastView r) = Some pv"
          "lookupEventBus (lastView r) = Some eb" by auto
        from addListeners_override_attaches [OF assms lf pr this] show ?thesis by simp
      qed
      with l show ?thesis by simp
    qed
  qed
qed

section \<open>Attaching twice\<close>

text \<open>
  Claim C3, as stated, asks that a second run of the attachment sequence for the same
  reader installs nothing. In the listener variant it does install: after two runs on
  the example PDF reader a click on \<^verbatim>\<open>button#previous\<close> runs two handler closures.
\<close>

theorem second_attachment_adds_listeners:
  "clickHandlers (fst (snd (twice (addListeners_listener ''addon'') pdfReader
      (newWorld exampleOptions)))) = [CenterLater 0 7, CenterLater 1 7]"
  by (simp add: twice_def clickHandlers_def dispatchEvent_def addListeners_listener_def
      example_defs attach_defs)

text \<open>
  Claim C3, amended. Neither variant keeps an attachment record. In the listener variant
  every attaching run registers one new handler closure on each navigation control that
  exists, so two runs leave two handlers more on each of them (the handlers already
  there being older closures). In the override variant the reader is the same after the
  second run as after the first: its five navigation operations are assigned again, to
  wrappers with the same primitive and the same viewport.
\<close>

theorem repeated_attachment:
  "(ready r \<and> locateFrame r = Some (doc, iframe)
      \<and> promise (awaitViewerContainer iframe) = Fulfilled (Some v)
      \<and> knownClosures (closures w) doc \<longrightarrow>
      (\<exists>doc2 w2.
          twice (addListeners_listener a) r w
            = (Returned, r\<lparr>iframeWindow := Some \<lparr>document = doc2\<rparr>\<rparr>, w2)
        \<and> map_option listeners (button_previous doc2)
            = withHandlers ''click'' (CenterLater (closures w) v) (CenterLater (Suc (closures w)) v)
                (button_previous doc)
        \<and> map_option listeners (button_next doc2)
            = withHandlers ''click'' (CenterLater (closures w) v) (CenterLater (Suc (closures w)) v)
                (button_next doc)
        \<and> map_option listeners (button_navigateBack doc2)
            = withHandlers ''click'' (CenterLater (closures w) v) (CenterLater (Suc (closures w)) v)
                (button_navigateBack doc)
        \<and> map_option listeners (input_pageNumber doc2)
            = withHandlers ''change'' (CenterLater (closures w) v) (CenterLater (Suc (closures w)) v)
                (input_pageNumber doc)))
   \<and> fst (snd (twice (addListeners_override a) r w)) = fst (snd (addListeners_override a r w))"
proof (intro conjI impI)
  assume h: "ready r \<and> locateFrame r = Some (doc, iframe)
      \<and> promise (awaitViewerContainer iframe) = Fulfilled (Some v)
      \<and> knownClosures (closures w) doc"
  let ?doc2 = "installListeners (CenterLater (Suc (closures w)) v)
            (installListeners (CenterLater (closures w) v) doc)"
  from h listener_twice [of r doc iframe v a w] obtain w2 where
    t: "twice (addListeners_listener a) r w
          = (Returned, r\<lparr>iframeWindow := Some \<lparr>document = ?doc2\<rparr>\<rparr>, w2)" by blast
  from h have k: "allocatedBefore (closures w) (button_previous doc)"
    "allocatedBefore (closures w) (button_next doc)"
    "allocatedBefore (closures w) (button_navigateBack doc)"
    "allocatedBefore (closures w) (input_pageNumber doc)"
    by (simp_all add: knownClosures_def)
  have "map_option listeners (button_previous ?doc2)
            = withHandlers ''click'' (CenterLater (closures w) v) (CenterLater (Suc (closures w)) v)
                (button_previous doc)"
    using add_two_fresh [OF k(1)] by (simp add: installListeners_def)
  moreover have "map_option listeners (button_next ?doc2)
            = withHandlers ''click'' (CenterLater (closures w) v) (CenterLater (Suc (closures w)) v)
                (button_next doc)"
    using add_two_fresh [OF k(2)] by (simp add: installListeners_def)
  moreover have "map_option listeners (button_navigateBack ?doc2)
            = withHandlers ''click'' (CenterLater (closures w) v) (CenterLater (Suc (closures w)) v)
                (button_navigateBack doc)"
    using add_two_fresh [OF k(3)] by (simp add: installListeners_def)
  moreover have "map_option listeners (input_pageNumber ?doc2)
            = withHandlers ''change'' (CenterLater (closures w) v) (CenterLater (Suc (closures w)) v)
                (input_pageNumber doc)"
    using add_two_fresh [OF k(4)] by (simp add: installListeners_def)
  ultimately show "\<exists>doc2 w2.
          twice (addListeners_listener a) r w
            = (Returned, r\<lparr>iframeWindow := Some \<lparr>document = doc2\<rparr>\<rparr>, w2)
        \<and> map_option listeners (button_previous doc2)
            = withHandlers ''click'' (CenterLater (closures w) v) (CenterLater (Suc (closures w)) v)
                (button_previous doc)
        \<and> map_option listeners (button_next doc2)
            = withHandlers ''click'' (CenterLater (closures w) v) (CenterLater (Suc (closures w)) v)
                (button_next doc)
        \<and> map_option listeners (button_navigateBack doc2)
            = withHandlers ''click'' (CenterLater (closures w) v) (CenterLater (Suc (closures w)) v)
                (button_navigateBack doc)
        \<and> map_option listeners (input_pageNumber doc2)
            = withHandlers ''change'' (CenterLater (closures w) v) (CenterLater (Suc (closures w)) v)
                (input_pageNumber doc)"
    using t by blast
next
  show "fst (snd (twice (addListeners_override a) r w)) = fst (snd (addListeners_override a r w))"
  proof (cases "addListeners_override a r w")
    case (fields out r1 w1)
    with override_idempotent [of a r w w1] show ?thesis by (simp add: twice_def)
  qed
qed


theorem repeated_attachment_witness:
  "\<exists>doc2 w2.
      twice (addListeners_listener ''addon'') pdfReader (newWorld exampleOptions)
        = (Returned, pdfReader\<lparr>iframeWindow := Some \<lparr>document = doc2\<rparr>\<rparr>, w2)
    \<and> map_option listeners (button_previous doc2)
        = Some [(''click'', CenterLater 0 7), (''click'', CenterLater 1 7)]
    \<and> map_option listeners (button_next doc2) = None
    \<and> map_option listeners (button_navigateBack doc2)
        = Some [(''click'', CenterLater 0 7), (''click'', CenterLater 1 7)]
    \<and> map_option listeners (input_pageNumber doc2)
        = Some [(''change'', CenterLater 0 7), (''change'', CenterLater 1 7)]"
proof -
  let ?doc = "\<lparr> viewerFrame = Some (exampleFrame (Some 7) NoLoad),
      button_previous = Some freshControl, button_next = None,
      button_navigateBack = Some freshControl, input_pageNumber = Some freshControl \<rparr>"
  have h: "ready pdfReader \<and> locateFrame pdfReader = Some (?doc, exampleFrame (Some 7) NoLoad)
      \<and> promise (awaitViewerContainer (exampleFrame (Some 7) NoLoad)) = Fulfilled (Some 7)
      \<and> knownClosures (closures (newWorld exampleOptions)) ?doc"
    by (simp add: ready_def knownClosures_def allocatedBefore_def example_defs attach_defs)
  from repeated_attachment [of pdfReader ?doc "exampleFrame (Some 7) NoLoad" 7
      "newWorld exampleOptions" "''addon''"] h
  show ?thesis
    by (simp add: withHandlers_def freshControl_def newWorld_def)
qed

section \<open>Lookups that fail\<close>

text \<open>The first test of both variants fails in exactly three ways.\<close>

lemma locateFrame_None_iff:
  "locateFrame r = None \<longleftrightarrow>
     iframeWindow r = None
   \<or> (\<exists>win. iframeWindow r = Some win \<and> viewerFrame (document win) = None)
   \<or> (\<exists>win e. iframeWindow r = Some win \<and> viewerFrame (document win) = Some e \<and> \<not> isIframe e)"
  by (auto simp add: locateFrame_def split: option.splits)

text \<open>
  Claim C6, as stated, asks for a logged diagnostic at every lookup failure. When the
  frame's content document has no \<^verbatim>\<open>#viewerContainer\<close>, also after the load event,
  both variants return without a word: the only message of the run is the line
  \<^verbatim>\<open>adding page listeners\<close>, which every run logs before any lookup.
\<close>

theorem missing_viewport_not_logged:
  "addListeners_listener ''addon'' emptyFrameReader (newWorld exampleOptions) =
     (Returned, emptyFrameReader,
      (newWorld exampleOptions)\<lparr>trace := [Debug ''[addon] adding page listeners'']\<rparr>)
   \<and> addListeners_override ''addon'' emptyFrameReader (newWorld exampleOptions) =
     (Returned, emptyFrameReader,
      (newWorld exampleOptions)\<lparr>trace := [Debug ''[addon] adding page listeners'']\<rparr>)"
  by (simp add: addListeners_listener_def addListeners_override_def example_defs attach_defs)

text \<open>
  Claim C6, amended. For a reader whose readiness signals resolve (its
  \<^verbatim>\<open>_internalReader._lastView\<close> and the \<^verbatim>\<open>PDFViewerApplication\<close> of a window
  that exists being there, as their types say), no lookup failure during attachment
  installs a hook or raises an exception. A missing content document, a missing frame or
  a frame element that is not an iframe (\<open>locateFrame r = None\<close>) ends the attempt by a
  return after logging \<^verbatim>\<open>couldn't attach styles; tab ... not ready\<close>. A viewport
  container that is missing at the call is looked up once more when the frame's load
  event fires: without a load event the attempt stays suspended for ever; if the
  container is still missing at the load event the attempt ends by a return. In the
  override variant a missing \<^verbatim>\<open>pdfViewer\<close> or \<^verbatim>\<open>eventBus\<close> ends the attempt by
  a return as well. In these last three cases nothing is logged beyond the entry line
  \<^verbatim>\<open>adding page listeners\<close>. In the listener variant a missing navigation control
  does not end the attempt: each control is handled on its own, an absent one is skipped
  and the ones present get the handler.
\<close>

theorem lookup_failures_halt:
  assumes "ready r"
  shows
  "(locateFrame r = None \<longrightarrow>
      addListeners_listener a r w =
        (Returned, r,
         w\<lparr>trace := trace w @
            [Debug (''['' @ a @ ''] adding page listeners''),
             Debug (''['' @ a @ ''] couldn't attach styles; tab '' @ tabID r @ '' not ready'')]\<rparr>)
    \<and> addListeners_override a r w = addListeners_listener a r w)
 \<and> (locateFrame r = Some (doc, iframe)
      \<and> promise (awaitViewerContainer iframe) = Fulfilled None \<longrightarrow>
      addListeners_listener a r w =
        (Returned, r, w\<lparr>trace := trace w @ [Debug (''['' @ a @ ''] adding page listeners'')]\<rparr>)
    \<and> addListeners_override a r w = addListeners_listener a r w)
 \<and> (locateFrame r = Some (doc, iframe)
      \<and> queryViewerContainer (contentDocument iframe) = None
      \<and> loadEvent iframe = NoLoad \<longrightarrow>
      addListeners_listener a r w =
        (Suspended, r, w\<lparr>trace := trace w @ [Debug (''['' @ a @ ''] adding page listeners'')]\<rparr>)
    \<and> addListeners_override a r w = addListeners_listener a r w)
 \<and> (locateFrame r = Some (doc, iframe)
      \<and> promise (awaitViewerContainer iframe) = Fulfilled (Some v)
      \<and> (lookupPdfViewer (lastView r) = None \<or> lookupEventBus (lastView r) = None) \<longrightarrow>
      addListeners_override a r w =
        (Returned, r, w\<lparr>trace := trace w @ [Debug (''['' @ a @ ''] adding page listeners'')]\<rparr>))
 \<and> (locateFrame r = Some (doc, iframe)
      \<and> promise (awaitViewerContainer iframe) = Fulfilled (Some v) \<longrightarrow>
      addListeners_listener a r w =
        (Returned,
         r\<lparr>iframeWindow := Some \<lparr>document = installListeners (CenterLater (closures w) v) doc\<rparr>\<rparr>,
         w\<lparr>trace := trace w @
              [Debug (''['' @ a @ ''] adding page listeners''),
               Debug (''['' @ a @ ''] added page listeners'')],
           closures := Suc (closures w)\<rparr>)
    \<and> button_previous (installListeners h doc)
          = map_option (addEventListener ''click'' h) (button_previous doc)
    \<and> button_next (installListeners h doc)
          = map_option (addEventListener ''click'' h) (button_next doc)
    \<and> button_navigateBack (installListeners h doc)
          = map_option (addEventListener ''click'' h) (button_navigateBack doc)
    \<and> input_pageNumber (installListeners h doc)
          = map_option (addEventListener ''change'' h) (input_pageNumber doc))
 \<and> fst (addListeners_listener a r w) \<noteq> Threw
 \<and> fst (addListeners_override a r w) \<noteq> Threw"
proof (intro conjI impI)
  assume n: "locateFrame r = None"
  from addListeners_no_frame(1) [OF assms n, of a w]
  show "addListeners_listener a r w =
        (Returned, r,
         w\<lparr>trace := trace w @
            [Debug (''['' @ a @ ''] adding page listeners''),
             Debug (''['' @ a @ ''] couldn't attach styles; tab '' @ tabID r @ '' not ready'')]\<rparr>)"
    by (simp add: notReady_def log'_def emit_def)
  from addListeners_no_frame [OF assms n, of a w]
  show "addListeners_override a r w = addListeners_listener a r w" by simp
next
  assume h: "locateFrame r = Some (doc, iframe)
      \<and> promise (awaitViewerContainer iframe) = Fulfilled None"
  then have lf: "locateFrame r = Some (doc, iframe)"
    and pr: "promise (awaitViewerContainer iframe) = Fulfilled None" by simp_all
  from addListeners_no_viewport(1) [OF assms lf pr, of a w]
  show "addListeners_listener a r w =
        (Returned, r, w\<lparr>trace := trace w @ [Debug (''['' @ a @ ''] adding page listeners'')]\<rparr>)"
    by (simp add: log'_def emit_def)
  from addListeners_no_viewport [OF assms lf pr, of a w]
  show "addListeners_override a r w = addListeners_listener a r w" by simp
next
  assume h: "locateFrame r = Some (doc, iframe)
      \<and> queryViewerContainer (contentDocument iframe) = None
      \<and> loadEvent iframe = NoLoad"
  then have lf: "locateFrame r = Some (doc, iframe)"
    and pr: "promise (awaitViewerContainer iframe) = Pending"
    by (simp_all add: awaitViewerContainer_pending)
  from addListeners_suspended(1) [OF assms lf pr, of a w]
  show "addListeners_listener a r w =
        (Suspended, r, w\<lparr>trace := trace w @ [Debug (''['' @ a @ ''] adding page listeners'')]\<rparr>)"
    by (simp add: log'_def emit_def)
  from addListeners_suspended [OF assms lf pr, of a w]
  show "addListeners_override a r w = addListeners_listener a r w" by simp
next
  assume h: "locateFrame r = Some (doc, iframe)
      \<and> promise (awaitViewerContainer iframe) = Fulfilled (Some v)
      \<and> (lookupPdfViewer (lastView r) = None \<or> lookupEventBus (lastView r) = None)"
  then have lf: "locateFrame r = Some (doc, iframe)"
    and pr: "promise (awaitViewerContainer iframe) = Fulfilled (Some v)"
    and c: "lookupPdfViewer (lastView r) = None \<or> lookupEventBus (lastView r) = None"
    by simp_all
  from addListeners_override_no_controls [OF assms lf pr c, of a w]
  show "addListeners_override a r w =
        (Returned, r, w\<lparr>trace := trace w @ [Debug (''['' @ a @ ''] adding page listeners'')]\<rparr>)"
    by (simp add: log'_def emit_def)
next
  assume h: "locateFrame r = Some (doc, iframe)
      \<and> promise (awaitViewerContainer iframe) = Fulfilled (Some v)"
  then have lf: "locateFrame r = Some (doc, iframe)"
    and pr: "promise (awaitViewerContainer iframe) = Fulfilled (Some v)" by simp_all
  from addListeners_listener_attaches [OF assms lf pr, of a w]
  show "addListeners_listener a r w =
        (Returned,
         r\<lparr>iframeWindow := Some \<lparr>document = installListeners (CenterLater (closures w) v) doc\<rparr>\<rparr>,
         w\<lparr>trace := trace w @
              [Debug (''['' @ a @ ''] adding page listeners''),
               Debug (''['' @ a @ ''] added page listeners'')],
           closures := Suc (closures w)\<rparr>)"
    by (simp add: log'_def emit_def)
  show "button_previous (installListeners h doc)
          = map_option (addEventListener ''click'' h) (button_previous doc)"
    and "button_next (installListeners h doc)
          = map_option (addEventListener ''click'' h) (button_next doc)"
    and "button_navigateBack (installListeners h doc)
          = map_option (addEventListener ''click'' h) (button_navigateBack doc)"
    and "input_pageNumber (installListeners h doc)
          = map_option (addEventListener ''change'' h) (input_pageNumber doc)"
    by (simp_all add: installListeners_def)
next
  from addListeners_never_throw [OF assms, of a w]
  show "fst (addListeners_listener a r w) \<noteq> Threw"
    and "fst (addListeners_override a r w) \<noteq> Threw" by simp_all
qed

theorem lookup_failures_halt_witness:
  "addListeners_listener ''addon'' epubReader (newWorld exampleOptions) =
     (Returned, epubReader,
      (newWorld exampleOptions)\<lparr>trace :=
         [Debug ''[addon] adding page listeners'',
          Debug ''[addon] couldn't attach styles; tab tab-1 not ready'']\<rparr>)
   \<and> addListeners_override ''addon'' emptyFrameReader (newWorld exampleOptions) =
     (Returned, emptyFrameReader,
      (newWorld exampleOptions)\<lparr>trace := [Debug ''[addon] adding page listeners'']\<rparr>)
   \<and> addListeners_override ''addon'' (pdfReader\<lparr>lastView := nativeView\<lparr>lv_iframeWindow := None\<rparr>\<rparr>)
        (newWorld exampleOptions) =
     (Returned, pdfReader\<lparr>lastView := nativeView\<lparr>lv_iframeWindow := None\<rparr>\<rparr>,
      (newWorld exampleOptions)\<lparr>trace := [Debug ''[addon] adding page listeners'']\<rparr>)
   \<and> trace (snd (snd (addListeners_listener ''addon'' pdfReader (newWorld exampleOptions)))) =
     [Debug ''[addon] adding page listeners'', Debug ''[addon] added page listeners'']
   \<and> addListeners_override ''addon'' (exampleReader ''pdf'' (Some (exampleFrame None NoLoad)))
        (newWorld exampleOptions) =
     (Suspended, exampleReader ''pdf'' (Some (exampleFrame None NoLoad)),
      (newWorld exampleOptions)\<lparr>trace := [Debug ''[addon] adding page listeners'']\<rparr>)"
proof -
  let ?waiting = "exampleReader ''pdf'' (Some (exampleFrame None NoLoad))"
  let ?wdoc = "\<lparr> viewerFrame = Some (exampleFrame None NoLoad),
      button_previous = Some freshControl, button_next = None,
      button_navigateBack = Some freshControl, input_pageNumber = Some freshControl \<rparr>"
  have rw: "ready ?waiting" by (simp add: ready_def example_defs)
  have 5: "locateFrame ?waiting = Some (?wdoc, exampleFrame None NoLoad)
      \<and> queryViewerContainer (contentDocument (exampleFrame None NoLoad)) = None
      \<and> loadEvent (exampleFrame None NoLoad) = NoLoad"
    by (simp add: example_defs attach_defs)
  from lookup_failures_halt [OF rw, where doc = ?wdoc and iframe = "exampleFrame None NoLoad"
      and a = "''addon''" and w = "newWorld exampleOptions"] 5
  have s: "addListeners_override ''addon'' ?waiting (newWorld exampleOptions) =
     (Suspended, ?waiting,
      (newWorld exampleOptions)\<lparr>trace := [Debug ''[addon] adding page listeners'']\<rparr>)"
    by (simp add: newWorld_def)
  let ?doc = "\<lparr> viewerFrame = Some (exampleFrame (Some 7) NoLoad),
      button_previous = Some freshControl, button_next = None,
      button_navigateBack = Some freshControl, input_pageNumber = Some freshControl \<rparr>"
  let ?edoc = "\<lparr> viewerFrame =
        Some (exampleFrame None (Load (Some \<lparr> viewerContainer = None \<rparr>))),
      button_previous = Some freshControl, button_next = None,
      button_navigateBack = Some freshControl, input_pageNumber = Some freshControl \<rparr>"
  let ?broken = "pdfReader\<lparr>lastView := nativeView\<lparr>lv_iframeWindow := None\<rparr>\<rparr>"
  have r: "ready epubReader" "ready emptyFrameReader" "ready ?broken" "ready pdfReader"
    by (simp_all add: ready_def example_defs)
  have 1: "locateFrame epubReader = None"
    by (simp add: example_defs attach_defs)
  have 2: "locateFrame emptyFrameReader
        = Some (?edoc, exampleFrame None (Load (Some \<lparr> viewerContainer = None \<rparr>)))
      \<and> promise (awaitViewerContainer
            (exampleFrame None (Load (Some \<lparr> viewerContainer = None \<rparr>)))) = Fulfilled None"
    by (simp add: example_defs attach_defs)
  have 3: "locateFrame ?broken = Some (?doc, exampleFrame (Some 7) NoLoad)
      \<and> promise (awaitViewerContainer (exampleFrame (Some 7) NoLoad)) = Fulfilled (Some 7)
      \<and> (lookupPdfViewer (lastView ?broken) = None \<or> lookupEventBus (lastView ?broken) = None)"
    by (simp add: example_defs attach_defs)
  have 4: "locateFrame pdfReader = Some (?doc, exampleFrame (Some 7) NoLoad)
      \<and> promise (awaitViewerContainer (exampleFrame (Some 7) NoLoad)) = Fulfilled (Some 7)"
    by (simp add: example_defs attach_defs)
  from lookup_failures_halt [OF r(1), where a = "''addon''" and w = "newWorld exampleOptions"] 1
  have a: "addListeners_listener ''addon'' epubReader (newWorld exampleOptions) =
     (Returned, epubReader,
      (newWorld exampleOptions)\<lparr>trace :=
         [Debug ''[addon] adding page listeners'',
          Debug ''[addon] couldn't attach styles; tab tab-1 not ready'']\<rparr>)"
    by (simp add: newWorld_def epubReader_def exampleReader_def)
  from lookup_failures_halt [OF r(2), where doc = ?edoc
      and iframe = "exampleFrame None (Load (Some \<lparr> viewerContainer = None \<rparr>))"
      and a = "''addon''" and w = "newWorld exampleOptions"] 2
  have b: "addListeners_override ''addon'' emptyFrameReader (newWorld exampleOptions) =
     (Returned, emptyFrameReader,
      (newWorld exampleOptions)\<lparr>trace := [Debug ''[addon] adding page listeners'']\<rparr>)"
    by (simp add: newWorld_def)
  from lookup_failures_halt [OF r(3), where doc = ?doc and iframe = "exampleFrame (Some 7) NoLoad"
      and a = "''addon''" and w = "newWorld exampleOptions" and v = 7] 3
  have c: "addListeners_override ''addon'' ?broken (newWorld exampleOptions) =
     (Returned, ?broken,
      (newWorld exampleOptions)\<lparr>trace := [Debug ''[addon] adding page listeners'']\<rparr>)"
    by (simp add: newWorld_def lookupPdfViewer_def lookupEventBus_def)
  from lookup_failures_halt [OF r(4), where doc = ?doc and iframe = "exampleFrame (Some 7) NoLoad"
      and a = "''addon''" and w = "newWorld exampleOptions" and v = 7] 4
  have d: "trace (snd (snd (addListeners_listener ''addon'' pdfReader (newWorld exampleOptions)))) =
     [Debug ''[addon] adding page listeners'', Debug ''[addon] added page listeners'']"
    by (simp add: newWorld_def)
  from a b c d s show ?thesis by blast
qed

section \<open>The replaced navigation operations\<close>

lemma navigations_emit_Navigate: "navigations (emit (Navigate p) w) = navigations w @ [p]"
  by (simp add: navigations_def emit_def)

lemma navigations_log: "navigations (log' a m w) = navigations w"
  by (simp add: navigations_def log'_def emit_def)

lemma navigations_centerCurrentPage: "navigations (centerCurrentPage a s v w) = navigations w"
  by (simp add: centerCurrentPage_def navigations_log Let_def navigations_def emit_def log'_def
      split: option.split)

lemma trace_centerCurrentPage:
  "trace (centerCurrentPage a s v w) = trace w @ trace (centerCurrentPage a s v (w\<lparr>trace := []\<rparr>))"
  by (simp add: centerCurrentPage_def Let_def emit_def log'_def split: option.split)

text \<open>
  Claim C7. In the override variant, after a successful attachment (both signals
  resolved, frame, viewport \<open>v\<close>, \<^verbatim>\<open>pdfViewer\<close> and \<^verbatim>\<open>eventBus\<close> found), the five
  operations \<^verbatim>\<open>navigateBack\<close>, \<^verbatim>\<open>navigateToPreviousPage\<close>,
  \<^verbatim>\<open>navigateToNextPage\<close>, \<^verbatim>\<open>navigateToFirstPage\<close> and
  \<^verbatim>\<open>navigateToLastPage\<close> of \<^verbatim>\<open>lastView\<close> are wrappers around
  \<^verbatim>\<open>_history.navigateBack\<close>, \<^verbatim>\<open>previousPage\<close>, \<^verbatim>\<open>nextPage\<close>,
  \<^verbatim>\<open>dispatch('firstpage')\<close> and \<^verbatim>\<open>dispatch('lastpage')\<close>, each on the located
  viewport; and invoking such a wrapper calls its primitive exactly once and then runs
  \<^verbatim>\<open>centerCurrentPage\<close> on that viewport, in this order.
\<close>

theorem override_wrappers:
  assumes "ready r" and "locateFrame r = Some (doc, iframe)"
    and "promise (awaitViewerContainer iframe) = Fulfilled (Some v)"
    and "lookupPdfViewer (lastView r) = Some pv" and "lookupEventBus (lastView r) = Some eb"
    and "addListeners_override a r w = (out, r', w')"
  shows "out = Returned
       \<and> map (\<lambda>operation. operation (lastView r'))
           [navigateBack, navigateToPreviousPage, navigateToNextPage,
            navigateToFirstPage, navigateToLastPage]
         = map (\<lambda>p. Wrapper p v)
           [HistoryNavigateBack, PreviousPage, NextPage,
            Dispatch ''firstpage'', Dispatch ''lastpage'']
       \<and> invoke a s layout (Wrapper p v) w2
           = centerCurrentPage a s (layout v) (emit (Navigate p) w2)
       \<and> trace (invoke a s layout (Wrapper p v) w2)
           = trace w2 @ Navigate p # trace (centerCurrentPage a s (layout v) (w2\<lparr>trace := []\<rparr>))
       \<and> navigations (invoke a s layout (Wrapper p v) w2) = navigations w2 @ [p]"
proof -
  from addListeners_override_attaches [OF assms(1-5), of a w] assms(6)
  have "out = Returned" and r': "r' = r\<lparr>lastView := installOverrides v (lastView r)\<rparr>"
    by simp_all
  moreover have "map (\<lambda>operation. operation (lastView r'))
           [navigateBack, navigateToPreviousPage, navigateToNextPage,
            navigateToFirstPage, navigateToLastPage]
         = map (\<lambda>p. Wrapper p v)
           [HistoryNavigateBack, PreviousPage, NextPage,
            Dispatch ''firstpage'', Dispatch ''lastpage'']"
    by (simp add: r' installOverrides_def)
  moreover have i: "invoke a s layout (Wrapper p v) w2
           = centerCurrentPage a s (layout v) (emit (Navigate p) w2)"
    by (simp add: invoke_def)
  moreover have "trace (invoke a s layout (Wrapper p v) w2)
           = trace w2 @ Navigate p # trace (centerCurrentPage a s (layout v) (w2\<lparr>trace := []\<rparr>))"
    unfolding i
    by (subst trace_centerCurrentPage) (simp add: emit_def centerCurrentPage_def log'_def Let_def split: option.split)
  moreover have "navigations (invoke a s layout (Wrapper p v) w2) = navigations w2 @ [p]"
    unfolding i by (simp add: navigations_centerCurrentPage navigations_emit_Navigate)
  ultimately show ?thesis by blast
qed

theorem override_wrappers_witness:
  "fst (addListeners_override ''addon'' pdfReader (newWorld exampleOptions)) = Returned
   \<and> navigateToNextPage (lastView (fst (snd
        (addListeners_override ''addon'' pdfReader (newWorld exampleOptions))))) = Wrapper NextPage 7
   \<and> navigateToLastPage (lastView (fst (snd
        (addListeners_override ''addon'' pdfReader (newWorld exampleOptions)))))
        = Wrapper (Dispatch ''lastpage'') 7
   \<and> trace (invoke ''addon'' exampleStringify (\<lambda>v. viewerAt 1200 [pageAt 0, pageAt 1200])
        (Wrapper NextPage 7) (newWorld exampleOptions))
      = [Navigate NextPage, Debug ''[addon] scrolling to {}'',
         ScrollTo \<lparr> top' = 1200, left' = 0 \<rparr>]"
proof -
  let ?doc = "\<lparr> viewerFrame = Some (exampleFrame (Some 7) NoLoad),
      button_previous = Some freshControl, button_next = None,
      button_navigateBack = Some freshControl, input_pageNumber = Some freshControl \<rparr>"
  have 1: "ready pdfReader" by (simp add: ready_def example_defs)
  have 2: "locateFrame pdfReader = Some (?doc, exampleFrame (Some 7) NoLoad)"
    by (simp add: example_defs attach_defs)
  have 3: "promise (awaitViewerContainer (exampleFrame (Some 7) NoLoad)) = Fulfilled (Some 7)"
    by (simp add: example_defs attach_defs)
  have 4: "lookupPdfViewer (lastView pdfReader) = Some PdfViewer"
    by (simp add: example_defs attach_defs)
  have 5: "lookupEventBus (lastView pdfReader) = Some EventBus"
    by (simp add: example_defs attach_defs)
  obtain out r' w' where
    6: "addListeners_override ''addon'' pdfReader (newWorld exampleOptions) = (out, r', w')"
    by (cases "addListeners_override ''addon'' pdfReader (newWorld exampleOptions)")
  from override_wrappers [OF 1 2 3 4 5 6, of exampleStringify
      "\<lambda>v. viewerAt 1200 [pageAt 0, pageAt 1200]" NextPage "newWorld exampleOptions"] 6
  show ?thesis
    by (simp add: centerCurrentPage_def getCurrentPage_def nearTop_eval getScrollTarget_def
        exampleStringify_def viewerAt_def pageAt_def newWorld_def log'_def emit_def Let_def)
qed


end
